theory Spec2Isabelle
  imports Complex_Main "HOL-Library.Sublist"
begin

section \<open>JSON values, thrown errors and the host runtime\<close>

text \<open>
  The backend is TypeScript on Node. Values that cross the wire are JSON. A JavaScript
  number decoded from JSON is a finite double, or an infinity when the literal overflows
  (\<^verbatim>\<open>JSON.parse("1e999")\<close>); JSON has no NaN. Every finite double is a rational, and
  \<^verbatim>\<open>Math.floor\<close> and the comparisons are exact on doubles, so a number is modelled as a
  rational or one of the two infinities.
\<close>

datatype jsnumber = Num rat | PlusInfinity | MinusInfinity

datatype json =
    JNull
  | JBool bool
  | JNumber jsnumber
  | JString string
  | JArray "json list"
  | JObject "(string \<times> json) list"

text \<open>
  What a \<^verbatim>\<open>throw\<close> carries. The route's \<^verbatim>\<open>catch\<close> block looks at two things only:
  whether the value is an \<^verbatim>\<open>Error\<close> (then its \<^verbatim>\<open>message\<close>) and whether it has a
  \<^verbatim>\<open>status\<close> property (the upstream client's errors do, a \<^verbatim>\<open>SyntaxError\<close> or a
  \<^verbatim>\<open>TypeError\<close> does not).
\<close>

datatype thrown =
    JsError (err_status: "nat option") (err_message: string)
  | NonError

text \<open>
  The regular-expression literals of \<^verbatim>\<open>dual-llm-subagent.ts\<close>:
  \<^item> \<open>QuestionRegex\<close> is \<^verbatim>\<open>/QUESTION:\s*(.+?)(?=\nOPTIONS:)/s\<close>,
  \<^item> \<open>OptionsRegex\<close> is \<^verbatim>\<open>/OPTIONS:\s*([\s\S]+)/\<close>,
  \<^item> \<open>OptionNumberRegex\<close> is \<^verbatim>\<open>/^\d+:\s*/\<close>.
\<close>

datatype source_regex = QuestionRegex | OptionsRegex | OptionNumberRegex

text \<open>
  Built-ins of the language and of lodash that the code calls and that are not code of
  this repository. They are parameters of the model; every theorem below holds for
  every runtime.
  \<^item> \<open>JSON_parse s\<close>: \<^verbatim>\<open>JSON.parse(s)\<close>; \<open>Inl m\<close> is a \<^verbatim>\<open>SyntaxError\<close> with message \<open>m\<close>.
  \<^item> \<open>JSON_stringify indent v\<close>: \<^verbatim>\<open>JSON.stringify(v)\<close> for \<open>indent = 0\<close>,
    \<^verbatim>\<open>JSON.stringify(v, null, indent)\<close> otherwise.
  \<^item> \<open>lodash_get obj path\<close>: \<^verbatim>\<open>_.get(obj, path)\<close>; \<open>None\<close> is \<^verbatim>\<open>undefined\<close>.
  \<^item> \<open>RegExp_compile p\<close>: \<^verbatim>\<open>new RegExp(p)\<close>; \<open>Inl m\<close> is the \<^verbatim>\<open>SyntaxError\<close> thrown for
    a pattern that does not compile, \<open>Inr t\<close> gives the compiled pattern's \<^verbatim>\<open>test\<close>.
  \<^item> \<open>str_match re s\<close>: \<^verbatim>\<open>s.match(re)\<close> for a regular-expression literal \<open>re\<close> of
    the source (each has one capture group); \<open>None\<close> is no match, \<open>Some g\<close> the text of
    group 1.
  \<^item> \<open>str_replace_regex re s\<close>: \<^verbatim>\<open>s.replace(re, "")\<close> for a literal of the source.
  \<^item> \<open>str_replace pat by s\<close>: \<^verbatim>\<open>s.replace(pat, by)\<close> with a string pattern.
  \<^item> \<open>str_trim s\<close>: \<^verbatim>\<open>s.trim()\<close>.
\<close>

record js_runtime =
  JSON_parse :: "string \<Rightarrow> string + json"
  JSON_stringify :: "nat \<Rightarrow> json \<Rightarrow> string"
  lodash_get :: "json \<Rightarrow> string \<Rightarrow> json option"
  RegExp_compile :: "string \<Rightarrow> string + (string \<Rightarrow> bool)"
  str_match :: "source_regex \<Rightarrow> string \<Rightarrow> string option"
  str_replace_regex :: "source_regex \<Rightarrow> string \<Rightarrow> string"
  str_replace :: "string \<Rightarrow> string \<Rightarrow> string \<Rightarrow> string"
  str_trim :: "string \<Rightarrow> string"

section \<open>Tool-invocation policies: \<^verbatim>\<open>ToolInvocationPolicyModel.evaluateForAgent\<close>\<close>

text \<open>
  The rows of the three tables the query joins. The policy table's \<^verbatim>\<open>operator\<close> and
  \<^verbatim>\<open>action\<close> columns are restricted by the insert schema to the closed sets below;
  \<^verbatim>\<open>blockPrompt\<close> is nullable. The column \<^verbatim>\<open>value\<close> is called \<open>policyValue\<close>, the name
  the evaluator gives it when it destructures the row.
\<close>

datatype operator =
  EndsWith | StartsWith | Contains | NotContains | Equal | NotEqual | Regex

datatype action = Allow | Block

record tool_invocation_policy =
  policy_id :: string
  policy_toolId :: string
  argumentName :: string
  policy_operator :: operator
  policyValue :: string
  policy_action :: action
  description :: string
  blockPrompt :: "string option"

record agent_tool_invocation_policy =
  join_agentId :: string
  join_policyId :: string

record tool_row =
  tool_id :: string
  tool_name :: string

record policy_db =
  agentToolInvocationPoliciesTable :: "agent_tool_invocation_policy list"
  toolInvocationPoliciesTable :: "tool_invocation_policy list"
  toolsTable :: "tool_row list"
  select_order :: "tool_invocation_policy list \<Rightarrow> tool_invocation_policy list"

record evaluation_result =
  isAllowed :: bool
  denyReason :: string

text \<open>
  The rows of the select: the rows of the agent's junction table joined with their policy
  and with the policy's tool, those of this agent whose tool has the invoked name. They
  are listed here as a nested loop over the three tables finds them.
\<close>

definition joinedPolicies ::
  "policy_db \<Rightarrow> string \<Rightarrow> string \<Rightarrow> tool_invocation_policy list" where
  "joinedPolicies db agentId toolName =
     concat (map (\<lambda>j.
       concat (map (\<lambda>p.
         concat (map (\<lambda>t.
           if join_policyId j = policy_id p \<and> policy_toolId p = tool_id t
              \<and> join_agentId j = agentId \<and> tool_name t = toolName
           then [p] else [])
           (toolsTable db)))
         (toolInvocationPoliciesTable db)))
       (agentToolInvocationPoliciesTable db))"

text \<open>
  The query has no \<^verbatim>\<open>ORDER BY\<close>: the database returns the rows of the join in an order of
  its own choosing, which need not be the order of any table. That choice is the field
  \<open>select_order\<close> of the database: it takes the rows of the join and gives them in the
  order in which the query returns them.
\<close>

definition applicablePoliciesForAgent ::
  "policy_db \<Rightarrow> string \<Rightarrow> string \<Rightarrow> tool_invocation_policy list" where
  "applicablePoliciesForAgent db agentId toolName =
     select_order db (joinedPolicies db agentId toolName)"

text \<open>
  The \<^verbatim>\<open>switch (operator)\<close>. The string operators test \<^verbatim>\<open>typeof argumentValue === "string"\<close>
  first, so for any other value the right operand is not evaluated; for \<^verbatim>\<open>regex\<close> that
  means the pattern is compiled only when the argument is a string. \<^verbatim>\<open>===\<close> against the
  policy's value, a string, holds exactly for that string.
\<close>

definition conditionMet :: "js_runtime \<Rightarrow> operator \<Rightarrow> string \<Rightarrow> json \<Rightarrow> thrown + bool" where
  "conditionMet rt oper pv argumentValue =
     (case oper of
        EndsWith \<Rightarrow>
          Inr (case argumentValue of JString s \<Rightarrow> suffix pv s | _ \<Rightarrow> False)
      | StartsWith \<Rightarrow>
          Inr (case argumentValue of JString s \<Rightarrow> prefix pv s | _ \<Rightarrow> False)
      | Contains \<Rightarrow>
          Inr (case argumentValue of JString s \<Rightarrow> sublist pv s | _ \<Rightarrow> False)
      | NotContains \<Rightarrow>
          Inr (case argumentValue of JString s \<Rightarrow> \<not> sublist pv s | _ \<Rightarrow> False)
      | Equal \<Rightarrow> Inr (argumentValue = JString pv)
      | NotEqual \<Rightarrow> Inr (argumentValue \<noteq> JString pv)
      | Regex \<Rightarrow>
          (case argumentValue of
             JString s \<Rightarrow>
               (case RegExp_compile rt pv of
                  Inl m \<Rightarrow> Inl (JsError None m)
                | Inr matches \<Rightarrow> Inr (matches s))
           | _ \<Rightarrow> Inr False))"

text \<open>\<^verbatim>\<open>blockPrompt || `Policy violation: ${description}`\<close>: null and the empty string
  are falsy.\<close>

definition policyDenyReason :: "tool_invocation_policy \<Rightarrow> string" where
  "policyDenyReason p =
     (case blockPrompt p of
        None \<Rightarrow> ''Policy violation: '' @ description p
      | Some b \<Rightarrow> if b = [] then ''Policy violation: '' @ description p else b)"

text \<open>
  The body of the \<^verbatim>\<open>for\<close> loop for one policy: \<open>Inr None\<close> when the loop goes on to the
  next policy, \<open>Inr (Some reason)\<close> when it returns a denial, \<open>Inl e\<close> when it throws.
\<close>

definition evaluatePolicy ::
  "js_runtime \<Rightarrow> tool_invocation_policy \<Rightarrow> json \<Rightarrow> thrown + string option" where
  "evaluatePolicy rt p toolInput =
     (case lodash_get rt toolInput (argumentName p) of
        None \<Rightarrow>
          (if policy_action p = Block then Inr None
           else Inr (Some (''Missing required argument: '' @ argumentName p)))
      | Some argumentValue \<Rightarrow>
          (case conditionMet rt (policy_operator p) (policyValue p) argumentValue of
             Inl e \<Rightarrow> Inl e
           | Inr met \<Rightarrow>
               (if policy_action p = Allow
                then (if \<not> met then Inr (Some (policyDenyReason p)) else Inr None)
                else (if met then Inr (Some (policyDenyReason p)) else Inr None))))"

fun evaluatePolicies ::
  "js_runtime \<Rightarrow> tool_invocation_policy list \<Rightarrow> json \<Rightarrow> thrown + evaluation_result" where
  "evaluatePolicies rt [] toolInput = Inr \<lparr>isAllowed = True, denyReason = ''''\<rparr>"
| "evaluatePolicies rt (p # ps) toolInput =
     (case evaluatePolicy rt p toolInput of
        Inl e \<Rightarrow> Inl e
      | Inr (Some reason) \<Rightarrow> Inr \<lparr>isAllowed = False, denyReason = reason\<rparr>
      | Inr None \<Rightarrow> evaluatePolicies rt ps toolInput)"

definition evaluateForAgent ::
  "js_runtime \<Rightarrow> policy_db \<Rightarrow> string \<Rightarrow> string \<Rightarrow> json \<Rightarrow> thrown + evaluation_result" where
  "evaluateForAgent rt db agentId toolName toolInput =
     evaluatePolicies rt (applicablePoliciesForAgent db agentId toolName) toolInput"

section \<open>The proxy route \<^verbatim>\<open>POST /v1/:provider/chat/completions\<close>\<close>

subsection \<open>Messages, interactions, replies\<close>

text \<open>
  A tool call of an assistant message is a function tool call
  (\<^verbatim>\<open>{id, type: "function", function: {name, arguments}}\<close>) or a custom tool call
  (\<^verbatim>\<open>{id, type: "custom", custom: {name, input}}\<close>): the two members of the client
  library's union type, which is why the route's test
  \<^verbatim>\<open>toolCall.type === "function" && "function" in toolCall\<close> is a case distinction here.
\<close>

datatype tool_call =
    FunctionToolCall (call_id: string) (fn_name: string) (fn_arguments: string)
  | CustomToolCall (call_id: string) (custom_name: string) (custom_input: string)

text \<open>
  A chat message, with the fields the route reads: \<^verbatim>\<open>role\<close>, \<^verbatim>\<open>content\<close> (a text),
  \<^verbatim>\<open>tool_call_id\<close> (of a tool message) and \<^verbatim>\<open>tool_calls\<close> (of an assistant message, when
  present).
\<close>

record chat_message =
  msg_role :: string
  msg_content :: string
  msg_tool_call_id :: string
  msg_tool_calls :: "tool_call list option"

record interaction =
  int_chatId :: string
  int_content :: chat_message
  tainted :: bool
  taintReason :: "string option"

record chat_request =
  req_model :: string
  req_messages :: "chat_message list"
  req_stream :: bool

text \<open>The upstream completion: \<open>resp_choices\<close> holds the message of each choice.\<close>

record chat_response =
  resp_id :: string
  resp_choices :: "chat_message list"

datatype reply_body =
    ErrorBody (error_message: string) (error_type: string)
  | CompletionBody chat_response

record http_reply =
  reply_status :: nat
  reply_body :: reply_body

text \<open>
  What a request leaves behind: the interactions table, the strings written to the raw
  socket (\<^verbatim>\<open>reply.raw.write\<close>) and the reply sent through the framework, if any.
\<close>

record route_outcome =
  interactions :: "interaction list"
  raw_written :: "string list"
  sent :: "http_reply option"

text \<open>
  The collaborators of the route that are not under \<^verbatim>\<open>src/\<close>, as parameters: the two
  guardrail evaluators (\<^verbatim>\<open>new TrustedDataPolicyEvaluator(...).evaluate()\<close> and
  \<^verbatim>\<open>new ToolInvocationPolicyEvaluator(...).evaluate()\<close>, each given the tool name, the
  tool-call id and the decoded JSON), and the upstream provider. A stream is the list of
  chunks it yields and the error it ends with, if it fails.
\<close>

record guardrails =
  trustedData_evaluate :: "string \<Rightarrow> string \<Rightarrow> json \<Rightarrow> thrown + (bool \<times> string)"
  toolInvocation_evaluate :: "string \<Rightarrow> string \<Rightarrow> json \<Rightarrow> thrown + evaluation_result"

record llm_provider =
  chatCompletion :: "chat_request \<Rightarrow> thrown + chat_response"
  chatCompletionStream :: "chat_request \<Rightarrow> json list \<times> thrown option"

subsection \<open>\<^verbatim>\<open>InteractionModel\<close>\<close>

text \<open>\<^verbatim>\<open>create\<close> inserts a row, \<^verbatim>\<open>tainted\<close> defaulting to false; \<^verbatim>\<open>findByChatId\<close> returns the
  chat's rows by creation time, which is the order of insertion.\<close>

definition InteractionModel_create ::
  "interaction list \<Rightarrow> string \<Rightarrow> chat_message \<Rightarrow> bool option \<Rightarrow> string option
     \<Rightarrow> interaction list" where
  "InteractionModel_create store chatId message taintedOpt reason =
     store @ [\<lparr>int_chatId = chatId, int_content = message,
               tainted = (case taintedOpt of None \<Rightarrow> False | Some t \<Rightarrow> t),
               taintReason = reason\<rparr>]"

definition findByChatId :: "interaction list \<Rightarrow> string \<Rightarrow> interaction list" where
  "findByChatId store chatId = filter (\<lambda>i. int_chatId i = chatId) store"

subsection \<open>\<^verbatim>\<open>extractToolNameFromHistory\<close>\<close>

text \<open>
  The inner loop over the tool calls of one assistant message: \<open>None\<close> when no call has
  the id. Reading \<^verbatim>\<open>toolCall.function.name\<close> of a custom tool call, which has no
  \<^verbatim>\<open>function\<close>, throws a \<^verbatim>\<open>TypeError\<close>.
\<close>

fun findToolCallName :: "tool_call list \<Rightarrow> string \<Rightarrow> (thrown + string) option" where
  "findToolCallName [] toolCallId = None"
| "findToolCallName (toolCall # rest) toolCallId =
     (if call_id toolCall = toolCallId
      then Some (case toolCall of
                   FunctionToolCall _ name _ \<Rightarrow> Inr name
                 | CustomToolCall _ _ _ \<Rightarrow>
                     Inl (JsError None
                       ''Cannot read properties of undefined (reading 'name')''))
      else findToolCallName rest toolCallId)"

text \<open>The outer loop, over the interactions from the most recent one backwards.\<close>

fun scanInteractions :: "interaction list \<Rightarrow> string \<Rightarrow> thrown + string option" where
  "scanInteractions [] toolCallId = Inr None"
| "scanInteractions (i # older) toolCallId =
     (if msg_role (int_content i) = ''assistant''
      then (case msg_tool_calls (int_content i) of
              None \<Rightarrow> scanInteractions older toolCallId
            | Some calls \<Rightarrow>
                (case findToolCallName calls toolCallId of
                   None \<Rightarrow> scanInteractions older toolCallId
                 | Some (Inl e) \<Rightarrow> Inl e
                 | Some (Inr name) \<Rightarrow> Inr (Some name)))
      else scanInteractions older toolCallId)"

definition extractToolNameFromHistory ::
  "interaction list \<Rightarrow> string \<Rightarrow> string \<Rightarrow> thrown + string option" where
  "extractToolNameFromHistory store chatId toolCallId =
     scanInteractions (rev (findByChatId store chatId)) toolCallId"

subsection \<open>The handler\<close>

definition newline :: string where
  "newline = [CHR 0x0A]"

text \<open>The \<^verbatim>\<open>catch\<close> block: the status of the error if it has one, 500 otherwise; the
  message of an \<^verbatim>\<open>Error\<close>, a fixed text for anything else.\<close>

definition catchReply :: "thrown \<Rightarrow> http_reply" where
  "catchReply e =
     \<lparr>reply_status = (case e of JsError (Some s) _ \<Rightarrow> s | _ \<Rightarrow> 500),
      reply_body =
        ErrorBody (case e of JsError _ m \<Rightarrow> m | NonError \<Rightarrow> ''Internal server error'')
          ''api_error''\<rparr>"

text \<open>
  The first loop of the handler, over the messages of the request: for a tool message,
  decode its content, look its tool up in the chat's history and, when a name was found
  (\<^verbatim>\<open>if (toolName)\<close>: neither null nor empty), evaluate the trusted-data policy and store
  the message. The result is the error thrown, if any, and the interactions table.
\<close>

fun processToolMessages ::
  "js_runtime \<Rightarrow> guardrails \<Rightarrow> string \<Rightarrow> chat_message list \<Rightarrow> interaction list
     \<Rightarrow> thrown option \<times> interaction list" where
  "processToolMessages rt g chatId [] store = (None, store)"
| "processToolMessages rt g chatId (message # rest) store =
     (if msg_role message = ''tool''
      then (case JSON_parse rt (msg_content message) of
              Inl m \<Rightarrow> (Some (JsError None m), store)
            | Inr toolResult \<Rightarrow>
                (case extractToolNameFromHistory store chatId (msg_tool_call_id message) of
                   Inl e \<Rightarrow> (Some e, store)
                 | Inr None \<Rightarrow> processToolMessages rt g chatId rest store
                 | Inr (Some toolName) \<Rightarrow>
                     (if toolName = [] then processToolMessages rt g chatId rest store
                      else (case trustedData_evaluate g toolName (msg_tool_call_id message)
                                   toolResult of
                              Inl e \<Rightarrow> (Some e, store)
                            | Inr (isTrusted, trustReason) \<Rightarrow>
                                processToolMessages rt g chatId rest
                                  (InteractionModel_create store chatId message
                                     (Some (\<not> isTrusted)) (Some trustReason))))))
      else processToolMessages rt g chatId rest store)"

text \<open>Storing the last message of the request when it is a user message. Reading
  \<^verbatim>\<open>.role\<close> of the last element of an empty array throws a \<^verbatim>\<open>TypeError\<close>.\<close>

definition storeUserMessage ::
  "string \<Rightarrow> chat_message list \<Rightarrow> interaction list \<Rightarrow> thrown + interaction list" where
  "storeUserMessage chatId messages store =
     (if messages = []
      then Inl (JsError None ''Cannot read properties of undefined (reading 'role')'')
      else if msg_role (last messages) = ''user''
           then Inr (InteractionModel_create store chatId (last messages) None None)
           else Inr store)"

text \<open>
  The gate over the tool calls of the assistant message: \<open>Inr (Some reason)\<close> at the first
  call the evaluator does not allow, \<open>Inr None\<close> when the loop ends, \<open>Inl e\<close> when
  \<^verbatim>\<open>JSON.parse\<close> or the evaluator throws. Custom tool calls are not looked at.
\<close>

fun evaluateToolCalls ::
  "js_runtime \<Rightarrow> guardrails \<Rightarrow> tool_call list \<Rightarrow> thrown + string option" where
  "evaluateToolCalls rt g [] = Inr None"
| "evaluateToolCalls rt g (CustomToolCall cid name inp # rest) = evaluateToolCalls rt g rest"
| "evaluateToolCalls rt g (FunctionToolCall cid name arguments # rest) =
     (case JSON_parse rt arguments of
        Inl m \<Rightarrow> Inl (JsError None m)
      | Inr toolInput \<Rightarrow>
          (case toolInvocation_evaluate g name cid toolInput of
             Inl e \<Rightarrow> Inl e
           | Inr verdict \<Rightarrow>
               (if \<not> isAllowed verdict then Inr (Some (denyReason verdict))
                else evaluateToolCalls rt g rest)))"

text \<open>
  The streaming branch: one server-sent event per chunk, then the terminator. When the
  upstream stream fails, the \<^verbatim>\<open>catch\<close> block calls \<^verbatim>\<open>reply.status(...).send(...)\<close>. If
  an event has been written to the raw socket by then, the head of the response is out
  already and no reply can follow: the client has the events written so far, without a
  terminator. If the stream fails before its first chunk, nothing has been written and
  the reply of the \<^verbatim>\<open>catch\<close> block is the response.
\<close>

definition streamCompletion ::
  "js_runtime \<Rightarrow> llm_provider \<Rightarrow> chat_request \<Rightarrow> interaction list \<Rightarrow> route_outcome" where
  "streamCompletion rt llm request store =
     (case chatCompletionStream llm request of
        (chunks, failure) \<Rightarrow>
          (let events = map (\<lambda>chunk. ''data: '' @ JSON_stringify rt 0 chunk @ newline @ newline)
                          chunks
           in case failure of
                None \<Rightarrow>
                  \<lparr>interactions = store,
                   raw_written = events @ [''data: [DONE]'' @ newline @ newline],
                   sent = None\<rparr>
              | Some e \<Rightarrow>
                  \<lparr>interactions = store, raw_written = events,
                   sent = (if events = [] then Some (catchReply e) else None)\<rparr>))"

text \<open>The non-streaming branch.\<close>

definition unaryCompletion ::
  "js_runtime \<Rightarrow> guardrails \<Rightarrow> llm_provider \<Rightarrow> string \<Rightarrow> chat_request \<Rightarrow> interaction list
     \<Rightarrow> route_outcome" where
  "unaryCompletion rt g llm chatId request store =
     (case chatCompletion llm request of
        Inl e \<Rightarrow> \<lparr>interactions = store, raw_written = [], sent = Some (catchReply e)\<rparr>
      | Inr response \<Rightarrow>
          (case resp_choices response of
             [] \<Rightarrow>
               \<lparr>interactions = store, raw_written = [],
                sent = Some (catchReply (JsError None
                  ''Cannot read properties of undefined (reading 'message')''))\<rparr>
           | assistantMessage # _ \<Rightarrow>
               (case evaluateToolCalls rt g
                       (case msg_tool_calls assistantMessage of None \<Rightarrow> [] | Some calls \<Rightarrow> calls) of
                  Inl e \<Rightarrow>
                    \<lparr>interactions = store, raw_written = [], sent = Some (catchReply e)\<rparr>
                | Inr (Some reason) \<Rightarrow>
                    \<lparr>interactions = store, raw_written = [],
                     sent = Some \<lparr>reply_status = 403,
                                  reply_body = ErrorBody reason ''tool_invocation_blocked''\<rparr>\<rparr>
                | Inr None \<Rightarrow>
                    \<lparr>interactions =
                       InteractionModel_create store chatId assistantMessage None None,
                     raw_written = [],
                     sent = Some \<lparr>reply_status = 200,
                                  reply_body = CompletionBody response\<rparr>\<rparr>)))"

text \<open>
  The handler. \<open>chats\<close> are the ids of the chats that exist (\<^verbatim>\<open>ChatModel.findById\<close>),
  \<open>store\<close> is the interactions table before the request.
\<close>

definition chatCompletions ::
  "js_runtime \<Rightarrow> guardrails \<Rightarrow> llm_provider \<Rightarrow> string list \<Rightarrow> interaction list
     \<Rightarrow> string \<Rightarrow> chat_request \<Rightarrow> route_outcome" where
  "chatCompletions rt g llm chats store chatId request =
     (if chatId \<notin> set chats
      then \<lparr>interactions = store, raw_written = [],
            sent = Some \<lparr>reply_status = 404,
                         reply_body = ErrorBody ''Chat not found'' ''invalid_request_error''\<rparr>\<rparr>
      else (case processToolMessages rt g chatId (req_messages request) store of
              (Some e, store1) \<Rightarrow>
                \<lparr>interactions = store1, raw_written = [], sent = Some (catchReply e)\<rparr>
            | (None, store1) \<Rightarrow>
                (case storeUserMessage chatId (req_messages request) store1 of
                   Inl e \<Rightarrow>
                     \<lparr>interactions = store1, raw_written = [], sent = Some (catchReply e)\<rparr>
                 | Inr store2 \<Rightarrow>
                     (if req_stream request then streamCompletion rt llm request store2
                      else unaryCompletion rt g llm chatId request store2))))"

text \<open>
  A tool call passes the gate: it is a custom tool call, which the gate does not look at,
  or a function tool call whose arguments decode and which the evaluator allows.
\<close>

definition toolCallAllowed :: "js_runtime \<Rightarrow> guardrails \<Rightarrow> tool_call \<Rightarrow> bool" where
  "toolCallAllowed rt g toolCall =
     (case toolCall of
        CustomToolCall _ _ _ \<Rightarrow> True
      | FunctionToolCall cid name arguments \<Rightarrow>
          (case JSON_parse rt arguments of
             Inl _ \<Rightarrow> False
           | Inr toolInput \<Rightarrow>
               (case toolInvocation_evaluate g name cid toolInput of
                  Inl _ \<Rightarrow> False
                | Inr verdict \<Rightarrow> isAllowed verdict)))"

section \<open>The dual-LLM sub-agent and the Anthropic trusted-data filter\<close>

subsection \<open>Anthropic messages\<close>

text \<open>
  A content block is a text block, a \<^verbatim>\<open>tool_use\<close> block, a \<^verbatim>\<open>tool_result\<close> block or a block
  of another type (an image, say). The content of a \<^verbatim>\<open>tool_result\<close> block is a JSON value:
  a string (\<open>JString\<close>) or structured content. A message's content is a string or an
  array of blocks.
\<close>

datatype content_block =
    TextBlock (block_text: string)
  | ToolUseBlock (use_id: string) (use_name: string) (use_input: json)
  | ToolResultBlock (tool_use_id: string) (result_content: json)
  | OtherBlock (block_type: string) (block_fields: json)

datatype message_content =
    StringContent string
  | BlocksContent "content_block list"

record anthropic_message =
  a_role :: string
  a_content :: message_content

subsection \<open>Stores, configuration and the LLM client\<close>

record dual_llm_message =
  dm_role :: string
  dm_content :: string

record dual_llm_result =
  res_agentId :: string
  res_toolCallId :: string
  res_conversations :: "dual_llm_message list"
  res_result :: string

record dual_llm_config =
  mainAgentPrompt :: string
  quarantinedAgentPrompt :: string
  summaryPrompt :: string
  maxRounds :: int

text \<open>
  The LLM client (\<^verbatim>\<open>dual-llm-client\<close>, not under \<^verbatim>\<open>src/\<close>) is an oracle with a state of its
  own, so that two calls with the same messages may answer differently: \<open>llm_chat\<close> is
  \<^verbatim>\<open>chat(messages, 0)\<close> and \<open>llm_chatWithSchema\<close> is \<^verbatim>\<open>chatWithSchema(messages, schema, 0)\<close>,
  whose reply is the decoded JSON (\<open>JNull\<close> for no value). Either may throw.
\<close>

record 'l dual_llm_client =
  llm_chat :: "'l \<Rightarrow> dual_llm_message list \<Rightarrow> (thrown + string) \<times> 'l"
  llm_chatWithSchema :: "'l \<Rightarrow> dual_llm_message list \<Rightarrow> (thrown + json) \<times> 'l"

text \<open>
  The world a sanitisation runs in: the \<^verbatim>\<open>DualLlmResult\<close> table, the state of the LLM and
  the number of LLM calls made so far.
\<close>

record 'l world =
  w_results :: "dual_llm_result list"
  w_llm :: 'l
  w_llm_calls :: nat

definition callChat ::
  "'l dual_llm_client \<Rightarrow> dual_llm_message list \<Rightarrow> 'l world \<Rightarrow> (thrown + string) \<times> 'l world" where
  "callChat client msgs w =
     (case llm_chat client (w_llm w) msgs of
        (reply, l) \<Rightarrow> (reply, w\<lparr>w_llm := l, w_llm_calls := Suc (w_llm_calls w)\<rparr>))"

definition callChatWithSchema ::
  "'l dual_llm_client \<Rightarrow> dual_llm_message list \<Rightarrow> 'l world \<Rightarrow> (thrown + json) \<times> 'l world" where
  "callChatWithSchema client msgs w =
     (case llm_chatWithSchema client (w_llm w) msgs of
        (reply, l) \<Rightarrow> (reply, w\<lparr>w_llm := l, w_llm_calls := Suc (w_llm_calls w)\<rparr>))"

text \<open>
  Modelled from the spec: \<^verbatim>\<open>DualLlmResultModel\<close> (\<^verbatim>\<open>findByToolCallId\<close>, \<^verbatim>\<open>create\<close>) is not under
  \<^verbatim>\<open>src/\<close>. The specification makes \<^verbatim>\<open>toolCallId\<close> the primary key of \<^verbatim>\<open>DualLlmResult\<close>, a
  cache of sanitisation outputs keyed by tool-call id, and says that the insert uses upsert
  semantics (the last writer wins).
\<close>

definition findByToolCallId :: "dual_llm_result list \<Rightarrow> string \<Rightarrow> dual_llm_result option" where
  "findByToolCallId rows toolCallId = find (\<lambda>r. res_toolCallId r = toolCallId) rows"

definition DualLlmResultModel_create ::
  "dual_llm_result list \<Rightarrow> dual_llm_result \<Rightarrow> dual_llm_result list" where
  "DualLlmResultModel_create rows row =
     filter (\<lambda>r. res_toolCallId r \<noteq> res_toolCallId row) rows @ [row]"

subsection \<open>Strings\<close>

text \<open>\<^verbatim>\<open>xs.join(sep)\<close>, \<^verbatim>\<open>s.split("\n")\<close> and the decimal text of an integer in a template
  string.\<close>

fun join :: "string \<Rightarrow> string list \<Rightarrow> string" where
  "join sep [] = []"
| "join sep [x] = x"
| "join sep (x # y # ys) = x @ sep @ join sep (y # ys)"

fun split_lines :: "string \<Rightarrow> string list" where
  "split_lines [] = [[]]"
| "split_lines (c # cs) =
     (if c = CHR 0x0A then [] # split_lines cs
      else (case split_lines cs of
              [] \<Rightarrow> [[c]]
            | line # lines \<Rightarrow> (c # line) # lines))"

definition digit_char :: "nat \<Rightarrow> char" where
  "digit_char d = ''0123456789'' ! d"

fun show_nat :: "nat \<Rightarrow> string" where
  "show_nat n = (if n < 10 then [digit_char n] else show_nat (n div 10) @ [digit_char (n mod 10)])"

declare show_nat.simps [simp del]

definition show_int :: "int \<Rightarrow> string" where
  "show_int i = (if i < 0 then CHR ''-'' # show_nat (nat (- i)) else show_nat (nat i))"

subsection \<open>\<^verbatim>\<open>extractToolNameFromMessages\<close>\<close>

fun findToolUseName :: "content_block list \<Rightarrow> string \<Rightarrow> string option" where
  "findToolUseName [] toolUseId = None"
| "findToolUseName (ToolUseBlock uid name inp # rest) toolUseId =
     (if uid = toolUseId then Some name else findToolUseName rest toolUseId)"
| "findToolUseName (_ # rest) toolUseId = findToolUseName rest toolUseId"

text \<open>The loop from the last message backwards, over the assistant messages whose content
  is an array.\<close>

fun scanMessages :: "anthropic_message list \<Rightarrow> string \<Rightarrow> string option" where
  "scanMessages [] toolUseId = None"
| "scanMessages (message # older) toolUseId =
     (case a_content message of
        BlocksContent blocks \<Rightarrow>
          (if a_role message = ''assistant''
           then (case findToolUseName blocks toolUseId of
                   Some name \<Rightarrow> Some name
                 | None \<Rightarrow> scanMessages older toolUseId)
           else scanMessages older toolUseId)
      | StringContent _ \<Rightarrow> scanMessages older toolUseId)"

definition extractToolNameFromMessages :: "anthropic_message list \<Rightarrow> string \<Rightarrow> string option" where
  "extractToolNameFromMessages messages toolUseId = scanMessages (rev messages) toolUseId"

subsection \<open>\<^verbatim>\<open>DualLlmSubagent\<close>\<close>

record subagent =
  sa_config :: dual_llm_config
  sa_agentId :: string
  sa_toolCallId :: string
  sa_originalUserRequest :: string
  sa_toolResult :: json

text \<open>A tool result's content as data: a string is decoded as JSON when it can be and
  kept as a string otherwise; structured content is taken as it is.\<close>

definition decodeToolResult :: "js_runtime \<Rightarrow> json \<Rightarrow> json" where
  "decodeToolResult rt content =
     (case content of
        JString s \<Rightarrow> (case JSON_parse rt s of Inr v \<Rightarrow> v | Inl _ \<Rightarrow> JString s)
      | _ \<Rightarrow> content)"

text \<open>\<^verbatim>\<open>extractUserRequestFromAnthropic\<close>: the last user message that is a string or has a
  text block; the fixed text when there is none.\<close>

fun firstTextBlock :: "content_block list \<Rightarrow> string option" where
  "firstTextBlock [] = None"
| "firstTextBlock (TextBlock t # rest) = Some t"
| "firstTextBlock (_ # rest) = firstTextBlock rest"

fun scanUserRequest :: "anthropic_message list \<Rightarrow> string" where
  "scanUserRequest [] = ''process this data''"
| "scanUserRequest (message # older) =
     (if a_role message = ''user''
      then (case a_content message of
              StringContent s \<Rightarrow> s
            | BlocksContent blocks \<Rightarrow>
                (case firstTextBlock blocks of
                   Some t \<Rightarrow> t
                 | None \<Rightarrow> scanUserRequest older))
      else scanUserRequest older)"

definition extractUserRequestFromAnthropic :: "anthropic_message list \<Rightarrow> string" where
  "extractUserRequestFromAnthropic messages = scanUserRequest (rev messages)"

text \<open>\<^verbatim>\<open>extractToolResultFromAnthropic\<close>: the first \<^verbatim>\<open>tool_result\<close> block with the id, in the
  user messages from the first one on; an \<^verbatim>\<open>Error\<close> when there is none.\<close>

fun findToolResult :: "content_block list \<Rightarrow> string \<Rightarrow> json option" where
  "findToolResult [] toolUseId = None"
| "findToolResult (ToolResultBlock rid content # rest) toolUseId =
     (if rid = toolUseId then Some content else findToolResult rest toolUseId)"
| "findToolResult (_ # rest) toolUseId = findToolResult rest toolUseId"

fun scanToolResult :: "anthropic_message list \<Rightarrow> string \<Rightarrow> json option" where
  "scanToolResult [] toolUseId = None"
| "scanToolResult (message # later) toolUseId =
     (case a_content message of
        BlocksContent blocks \<Rightarrow>
          (if a_role message = ''user''
           then (case findToolResult blocks toolUseId of
                   Some content \<Rightarrow> Some content
                 | None \<Rightarrow> scanToolResult later toolUseId)
           else scanToolResult later toolUseId)
      | StringContent _ \<Rightarrow> scanToolResult later toolUseId)"

definition extractToolResultFromAnthropic ::
  "js_runtime \<Rightarrow> anthropic_message list \<Rightarrow> string \<Rightarrow> thrown + json" where
  "extractToolResultFromAnthropic rt messages toolUseId =
     (case scanToolResult messages toolUseId of
        Some content \<Rightarrow> Inr (decodeToolResult rt content)
      | None \<Rightarrow> Inl (JsError None (''Tool result not found for toolUseId: '' @ toolUseId)))"

text \<open>\<^verbatim>\<open>DualLlmSubagent.create\<close> with the Anthropic parameters; \<open>config\<close> is the row that
  \<^verbatim>\<open>DualLlmConfigModel.getDefault()\<close> returned.\<close>

definition createSubagent ::
  "js_runtime \<Rightarrow> dual_llm_config \<Rightarrow> anthropic_message list \<Rightarrow> string \<Rightarrow> string
     \<Rightarrow> thrown + subagent" where
  "createSubagent rt config messages toolUseId agentId =
     (case extractToolResultFromAnthropic rt messages toolUseId of
        Inl e \<Rightarrow> Inl e
      | Inr toolResult \<Rightarrow>
          Inr \<lparr>sa_config = config, sa_agentId = agentId, sa_toolCallId = toolUseId,
               sa_originalUserRequest = extractUserRequestFromAnthropic messages,
               sa_toolResult = toolResult\<rparr>)"

text \<open>
  The validation at the end of \<^verbatim>\<open>answerQuestion\<close>, for a reply \<open>parsed\<close> and \<open>n\<close> options:
  the last option, \<open>n - 1\<close>, unless the reply is a truthy value with a number in its
  \<^verbatim>\<open>answer\<close> property whose floor is at least 0 and below \<open>n\<close>. Only an object has such a
  property. \<^verbatim>\<open>Math.floor\<close> leaves an infinity as it is.
\<close>

definition truthy :: "json \<Rightarrow> bool" where
  "truthy v =
     (case v of
        JNull \<Rightarrow> False
      | JBool b \<Rightarrow> b
      | JNumber x \<Rightarrow> x \<noteq> Num 0
      | JString s \<Rightarrow> s \<noteq> []
      | _ \<Rightarrow> True)"

definition answerProperty :: "json \<Rightarrow> json option" where
  "answerProperty parsed =
     (case parsed of JObject props \<Rightarrow> map_of props ''answer'' | _ \<Rightarrow> None)"

definition selectAnswer :: "json \<Rightarrow> nat \<Rightarrow> int" where
  "selectAnswer parsed n =
     (if \<not> truthy parsed then int n - 1
      else (case answerProperty parsed of
              Some (JNumber answer) \<Rightarrow>
                (case answer of
                   Num q \<Rightarrow>
                     (let answerIndex = \<lfloor>q\<rfloor>
                      in if answerIndex < 0 \<or> answerIndex \<ge> int n then int n - 1
                         else answerIndex)
                 | PlusInfinity \<Rightarrow> int n - 1
                 | MinusInfinity \<Rightarrow> int n - 1)
            | _ \<Rightarrow> int n - 1))"

text \<open>\<^verbatim>\<open>options.map((opt, idx) => `${idx}: ${opt}`)\<close>, from index \<open>i\<close> on.\<close>

fun numberOptions :: "nat \<Rightarrow> string list \<Rightarrow> string list" where
  "numberOptions i [] = []"
| "numberOptions i (opt # opts) = (show_nat i @ '': '' @ opt) # numberOptions (Suc i) opts"

text \<open>The prompt of the quarantined agent: the four placeholders of the configured
  prompt replaced in the order of the source.\<close>

definition quarantinedPrompt :: "js_runtime \<Rightarrow> subagent \<Rightarrow> string \<Rightarrow> string list \<Rightarrow> string" where
  "quarantinedPrompt rt sa question options =
     (let optionsText = join newline (numberOptions 0 options)
      in str_replace rt ''{{maxIndex}}'' (show_int (int (length options) - 1))
           (str_replace rt ''{{options}}'' optionsText
             (str_replace rt ''{{question}}'' question
               (str_replace rt ''{{toolResultData}}'' (JSON_stringify rt 2 (sa_toolResult sa))
                 (quarantinedAgentPrompt (sa_config sa))))))"

definition answerQuestion ::
  "js_runtime \<Rightarrow> 'l dual_llm_client \<Rightarrow> subagent \<Rightarrow> string \<Rightarrow> string list \<Rightarrow> 'l world
     \<Rightarrow> (thrown + int) \<times> 'l world" where
  "answerQuestion rt client sa question options w =
     (case callChatWithSchema client
             [\<lparr>dm_role = ''user'', dm_content = quarantinedPrompt rt sa question options\<rparr>] w of
        (Inl e, w1) \<Rightarrow> (Inl e, w1)
      | (Inr parsed, w1) \<Rightarrow> (Inr (selectAnswer parsed (length options)), w1))"

text \<open>\<^verbatim>\<open>generateSummary\<close>.\<close>

definition generateSummary ::
  "js_runtime \<Rightarrow> 'l dual_llm_client \<Rightarrow> subagent \<Rightarrow> dual_llm_message list \<Rightarrow> 'l world
     \<Rightarrow> (thrown + string) \<times> 'l world" where
  "generateSummary rt client sa conversation w =
     (let qaText = join newline (filter (\<lambda>c. length c > 0) (map dm_content conversation));
          prompt = str_replace rt ''{{qaText}}'' qaText (summaryPrompt (sa_config sa))
      in callChat client [\<lparr>dm_role = ''user'', dm_content = prompt\<rparr>] w)"

text \<open>The options of a privileged reply: the lines after \<^verbatim>\<open>OPTIONS:\<close>, without their
  numbers, trimmed, the empty ones dropped.\<close>

definition parseOptions :: "js_runtime \<Rightarrow> string \<Rightarrow> string list" where
  "parseOptions rt optionsText =
     filter (\<lambda>opt. length opt > 0)
       (map (\<lambda>line. str_trim rt (str_replace_regex rt OptionNumberRegex line))
          (split_lines optionsText))"

text \<open>\<^verbatim>\<open>options[answerIndex]\<close> in a template string: \<^verbatim>\<open>undefined\<close> outside the array.\<close>

definition selectedOptionText :: "string list \<Rightarrow> int \<Rightarrow> string" where
  "selectedOptionText options answerIndex =
     (if 0 \<le> answerIndex \<and> answerIndex < int (length options)
      then options ! nat answerIndex else ''undefined'')"

text \<open>
  The question-and-answer loop of \<^verbatim>\<open>processWithMainAgent\<close>, with the number of rounds still
  to run: the result is the conversation when the loop ends (rounds used up, \<^verbatim>\<open>DONE\<close>, or
  a reply that is not a question) or the error an LLM call threw.
\<close>

fun qaLoop ::
  "js_runtime \<Rightarrow> 'l dual_llm_client \<Rightarrow> subagent \<Rightarrow> nat \<Rightarrow> dual_llm_message list \<Rightarrow> 'l world
     \<Rightarrow> (thrown + dual_llm_message list) \<times> 'l world" where
  "qaLoop rt client sa 0 conversation w = (Inr conversation, w)"
| "qaLoop rt client sa (Suc rounds) conversation w =
     (case callChat client conversation w of
        (Inl e, w1) \<Rightarrow> (Inl e, w1)
      | (Inr response, w1) \<Rightarrow>
          (let conversation1 = conversation @ [\<lparr>dm_role = ''assistant'', dm_content = response\<rparr>]
           in if sublist ''DONE'' response then (Inr conversation1, w1)
              else (case str_match rt QuestionRegex response of
                      None \<Rightarrow> (Inr conversation1, w1)
                    | Some questionMatch \<Rightarrow>
                        (case str_match rt OptionsRegex response of
                           None \<Rightarrow> (Inr conversation1, w1)
                         | Some optionsMatch \<Rightarrow>
                             (let question = str_trim rt questionMatch;
                                  options = parseOptions rt (str_trim rt optionsMatch)
                              in case answerQuestion rt client sa question options w1 of
                                   (Inl e, w2) \<Rightarrow> (Inl e, w2)
                                 | (Inr answerIndex, w2) \<Rightarrow>
                                     qaLoop rt client sa rounds
                                       (conversation1 @
                                          [\<lparr>dm_role = ''user'',
                                            dm_content =
                                              ''Answer: '' @ show_int answerIndex @ '' (''
                                              @ selectedOptionText options answerIndex @ '')''\<rparr>])
                                       w2)))))"

definition processWithMainAgent ::
  "js_runtime \<Rightarrow> 'l dual_llm_client \<Rightarrow> subagent \<Rightarrow> 'l world \<Rightarrow> (thrown + string) \<times> 'l world" where
  "processWithMainAgent rt client sa w =
     (let prompt = str_replace rt ''{{originalUserRequest}}'' (sa_originalUserRequest sa)
                     (mainAgentPrompt (sa_config sa));
          conversation = [\<lparr>dm_role = ''user'', dm_content = prompt\<rparr>]
      in case qaLoop rt client sa (nat (maxRounds (sa_config sa))) conversation w of
           (Inl e, w1) \<Rightarrow> (Inl e, w1)
         | (Inr conversation1, w1) \<Rightarrow>
             (case generateSummary rt client sa conversation1 w1 of
                (Inl e, w2) \<Rightarrow> (Inl e, w2)
              | (Inr summary, w2) \<Rightarrow>
                  (Inr summary,
                   w2\<lparr>w_results :=
                        DualLlmResultModel_create (w_results w2)
                          \<lparr>res_agentId = sa_agentId sa, res_toolCallId = sa_toolCallId sa,
                           res_conversations = conversation1, res_result = summary\<rparr>\<rparr>)))"

subsection \<open>\<^verbatim>\<open>evaluateIfContextIsTrusted\<close>\<close>

text \<open>
  \<^verbatim>\<open>TrustedDataPolicyModel.evaluate(agentId, toolName, toolResult)\<close> is not under \<^verbatim>\<open>src/\<close>; it
  is a parameter, of type \<open>trusted_data_evaluator\<close>.
\<close>

record trust_verdict =
  tv_isTrusted :: bool
  tv_isBlocked :: bool
  tv_shouldSanitizeWithDualLlm :: bool
  tv_reason :: string

type_synonym trusted_data_evaluator = "string \<Rightarrow> string \<Rightarrow> json \<Rightarrow> thrown + trust_verdict"

text \<open>
  The branch that sanitises a tool result: the cached result of the tool-call id when
  the table has one, and otherwise a sub-agent run, which stores its summary.
\<close>

definition sanitizeWithDualLlm ::
  "js_runtime \<Rightarrow> 'l dual_llm_client \<Rightarrow> dual_llm_config \<Rightarrow> anthropic_message list \<Rightarrow> string
     \<Rightarrow> string \<Rightarrow> 'l world \<Rightarrow> (thrown + string) \<times> 'l world" where
  "sanitizeWithDualLlm rt client config messages agentId toolUseId w =
     (case findByToolCallId (w_results w) toolUseId of
        Some existingResult \<Rightarrow> (Inr (res_result existingResult), w)
      | None \<Rightarrow>
          (case createSubagent rt config messages toolUseId agentId of
             Inl e \<Rightarrow> (Inl e, w)
           | Inr dualLlmSubagent \<Rightarrow> processWithMainAgent rt client dualLlmSubagent w))"

text \<open>
  One content block of a user message: the block to push and whether the block sets
  \<^verbatim>\<open>hasUntrustedData\<close>. A tool name counts as found when it is neither null nor empty.
\<close>

definition evaluateContentBlock ::
  "js_runtime \<Rightarrow> trusted_data_evaluator \<Rightarrow> 'l dual_llm_client \<Rightarrow> dual_llm_config
     \<Rightarrow> anthropic_message list \<Rightarrow> string \<Rightarrow> content_block \<Rightarrow> 'l world
     \<Rightarrow> (thrown + content_block \<times> bool) \<times> 'l world" where
  "evaluateContentBlock rt evaluate client config messages agentId contentBlock w =
     (case contentBlock of
        ToolResultBlock toolUseId content \<Rightarrow>
          (let toolResult = decodeToolResult rt content
           in case extractToolNameFromMessages messages toolUseId of
                None \<Rightarrow> (Inr (contentBlock, True), w)
              | Some toolName \<Rightarrow>
                  (if toolName = [] then (Inr (contentBlock, True), w)
                   else (case evaluate agentId toolName toolResult of
                           Inl e \<Rightarrow> (Inl e, w)
                         | Inr verdict \<Rightarrow>
                             (if tv_isBlocked verdict
                              then (Inr (ToolResultBlock toolUseId
                                           (JString (''[Content blocked by policy''
                                              @ (if tv_reason verdict \<noteq> []
                                                 then '': '' @ tv_reason verdict else [])
                                              @ '']'')),
                                         \<not> tv_isTrusted verdict), w)
                              else if tv_shouldSanitizeWithDualLlm verdict
                              then (case sanitizeWithDualLlm rt client config messages agentId
                                           toolUseId w of
                                      (Inl e, w1) \<Rightarrow> (Inl e, w1)
                                    | (Inr safe, w1) \<Rightarrow>
                                        (Inr (ToolResultBlock toolUseId (JString safe),
                                              \<not> tv_isTrusted verdict), w1))
                              else (Inr (contentBlock, \<not> tv_isTrusted verdict), w)))))
      | _ \<Rightarrow> (Inr (contentBlock, False), w))"

text \<open>The loop over the content blocks of one message: the updated blocks and whether
  any of them set \<^verbatim>\<open>hasUntrustedData\<close>.\<close>

fun evaluateContentBlocks ::
  "js_runtime \<Rightarrow> trusted_data_evaluator \<Rightarrow> 'l dual_llm_client \<Rightarrow> dual_llm_config
     \<Rightarrow> anthropic_message list \<Rightarrow> string \<Rightarrow> content_block list \<Rightarrow> 'l world
     \<Rightarrow> (thrown + content_block list \<times> bool) \<times> 'l world" where
  "evaluateContentBlocks rt evaluate client config messages agentId [] w = (Inr ([], False), w)"
| "evaluateContentBlocks rt evaluate client config messages agentId (contentBlock # rest) w =
     (case evaluateContentBlock rt evaluate client config messages agentId contentBlock w of
        (Inl e, w1) \<Rightarrow> (Inl e, w1)
      | (Inr (updated, untrusted), w1) \<Rightarrow>
          (case evaluateContentBlocks rt evaluate client config messages agentId rest w1 of
             (Inl e, w2) \<Rightarrow> (Inl e, w2)
           | (Inr (updatedRest, untrustedRest), w2) \<Rightarrow>
               (Inr (updated # updatedRest, untrusted \<or> untrustedRest), w2)))"

text \<open>The loop over the messages; \<open>messages\<close> is the whole list, which the lookups read,
  and the list argument after \<open>agentId\<close> is what is left to go through.\<close>

fun filterMessages ::
  "js_runtime \<Rightarrow> trusted_data_evaluator \<Rightarrow> 'l dual_llm_client \<Rightarrow> dual_llm_config
     \<Rightarrow> anthropic_message list \<Rightarrow> string \<Rightarrow> anthropic_message list \<Rightarrow> 'l world
     \<Rightarrow> (thrown + anthropic_message list \<times> bool) \<times> 'l world" where
  "filterMessages rt evaluate client config messages agentId [] w = (Inr ([], False), w)"
| "filterMessages rt evaluate client config messages agentId (message # rest) w =
     (case (if a_role message = ''user''
            then (case a_content message of
                    BlocksContent blocks \<Rightarrow>
                      (if blocks = [] then (Inr (message, False), w)
                       else (case evaluateContentBlocks rt evaluate client config messages
                                    agentId blocks w of
                               (Inl e, w1) \<Rightarrow> (Inl e, w1)
                             | (Inr (updatedContentBlocks, untrusted), w1) \<Rightarrow>
                                 (Inr (message\<lparr>a_content := BlocksContent updatedContentBlocks\<rparr>,
                                       untrusted), w1)))
                  | StringContent _ \<Rightarrow> (Inr (message, False), w))
            else (Inr (message, False), w)) of
        (Inl e, w1) \<Rightarrow> (Inl e, w1)
      | (Inr (filtered, untrusted), w1) \<Rightarrow>
          (case filterMessages rt evaluate client config messages agentId rest w1 of
             (Inl e, w2) \<Rightarrow> (Inl e, w2)
           | (Inr (filteredRest, untrustedRest), w2) \<Rightarrow>
               (Inr (filtered # filteredRest, untrusted \<or> untrustedRest), w2)))"

text \<open>The result: \<open>filteredMessages\<close> and \<open>contextIsTrusted\<close>.\<close>

definition evaluateIfContextIsTrusted ::
  "js_runtime \<Rightarrow> trusted_data_evaluator \<Rightarrow> 'l dual_llm_client \<Rightarrow> dual_llm_config
     \<Rightarrow> anthropic_message list \<Rightarrow> string \<Rightarrow> 'l world
     \<Rightarrow> (thrown + anthropic_message list \<times> bool) \<times> 'l world" where
  "evaluateIfContextIsTrusted rt evaluate client config messages agentId w =
     (case filterMessages rt evaluate client config messages agentId messages w of
        (Inl e, w1) \<Rightarrow> (Inl e, w1)
      | (Inr (filteredMessages, hasUntrustedData), w1) \<Rightarrow>
          (Inr (filteredMessages, \<not> hasUntrustedData), w1))"

text \<open>
  \<open>n\<close> sanitisations of the same tool result, one after the other: what each returned
  and the world after the last.
\<close>

fun sanitizeTimes ::
  "nat \<Rightarrow> js_runtime \<Rightarrow> 'l dual_llm_client \<Rightarrow> dual_llm_config \<Rightarrow> anthropic_message list
     \<Rightarrow> string \<Rightarrow> string \<Rightarrow> 'l world \<Rightarrow> (thrown + string) list \<times> 'l world" where
  "sanitizeTimes 0 rt client config messages agentId toolUseId w = ([], w)"
| "sanitizeTimes (Suc n) rt client config messages agentId toolUseId w =
     (case sanitizeWithDualLlm rt client config messages agentId toolUseId w of
        (outcome, w1) \<Rightarrow>
          (case sanitizeTimes n rt client config messages agentId toolUseId w1 of
             (outcomes, w2) \<Rightarrow> (outcome # outcomes, w2)))"

text \<open>
  The frame of the filter. A block is kept, and only a \<^verbatim>\<open>tool_result\<close> block may be
  replaced, by a \<^verbatim>\<open>tool_result\<close> block for the same tool-use id whose content is a string
  (the notice of a block, a cached result or a summary). A message is kept, and only a
  user message with a non-empty array of blocks may get new content, block by block.
\<close>

definition blockFrame :: "content_block \<Rightarrow> content_block \<Rightarrow> bool" where
  "blockFrame original updated =
     (case original of
        ToolResultBlock toolUseId content \<Rightarrow>
          (case updated of
             ToolResultBlock updatedId updatedContent \<Rightarrow>
               updatedId = toolUseId \<and>
               (updatedContent = content \<or>
                (case updatedContent of JString _ \<Rightarrow> True | _ \<Rightarrow> False))
           | _ \<Rightarrow> False)
      | _ \<Rightarrow> updated = original)"

definition messageFrame :: "anthropic_message \<Rightarrow> anthropic_message \<Rightarrow> bool" where
  "messageFrame original updated =
     (case a_content original of
        StringContent _ \<Rightarrow> updated = original
      | BlocksContent blocks \<Rightarrow>
          (if a_role original = ''user'' \<and> blocks \<noteq> []
           then updated = original\<lparr>a_content := a_content updated\<rparr> \<and>
                (case a_content updated of
                   StringContent _ \<Rightarrow> False
                 | BlocksContent updatedBlocks \<Rightarrow> list_all2 blockFrame blocks updatedBlocks)
           else updated = original))"

section \<open>Concrete data for the worked examples\<close>

text \<open>
  A runtime for the closed examples. It agrees with the real built-ins on the inputs the
  examples use and is not meant beyond them: \<open>example_get\<close> reads a plain property name
  (no dot, no bracket) of an object, as \<^verbatim>\<open>_.get\<close> does; \<open>example_compile\<close> rejects the
  pattern \<^verbatim>\<open>(\<close>, which no engine compiles, and reads a pattern without metacharacters as
  a substring test; \<open>example_parse\<close> decodes the texts \<^verbatim>\<open>{}\<close> and \<^verbatim>\<open>null\<close> and rejects
  texts that are not JSON; \<open>example_stringify\<close> prints the empty object.
\<close>

definition example_get :: "json \<Rightarrow> string \<Rightarrow> json option" where
  "example_get obj path = (case obj of JObject kvs \<Rightarrow> map_of kvs path | _ \<Rightarrow> None)"

definition example_compile :: "string \<Rightarrow> string + (string \<Rightarrow> bool)" where
  "example_compile p =
     (if p = ''('' then Inl ''Invalid regular expression: /(/: Unterminated group''
      else Inr (\<lambda>s. sublist p s))"

definition example_parse :: "string \<Rightarrow> string + json" where
  "example_parse s =
     (if s = ''{}'' then Inr (JObject [])
      else if s = ''null'' then Inr JNull
      else Inl ''Unexpected token in JSON'')"

definition example_stringify :: "nat \<Rightarrow> json \<Rightarrow> string" where
  "example_stringify indent v = (case v of JObject [] \<Rightarrow> ''{}'' | _ \<Rightarrow> ''null'')"

definition example_runtime :: js_runtime where
  "example_runtime =
     \<lparr>JSON_parse = example_parse, JSON_stringify = example_stringify,
      lodash_get = example_get, RegExp_compile = example_compile,
      str_match = (\<lambda>re s. None), str_replace_regex = (\<lambda>re s. s),
      str_replace = (\<lambda>pat by s. s), str_trim = (\<lambda>s. s)\<rparr>"

text \<open>Policies of one agent on one tool, \<^verbatim>\<open>readFile\<close>, and the store that holds them;
  its queries return the rows in the order of the policy table.\<close>

definition example_policy ::
  "string \<Rightarrow> string \<Rightarrow> operator \<Rightarrow> string \<Rightarrow> action \<Rightarrow> string option
     \<Rightarrow> tool_invocation_policy" where
  "example_policy pid arg oper v act prompt =
    \<lparr>policy_id = pid, policy_toolId = ''tool-1'', argumentName = arg, policy_operator = oper,
     policyValue = v, policy_action = act, description = ''rule '' @ pid,
     blockPrompt = prompt\<rparr>"

definition example_db :: "tool_invocation_policy list \<Rightarrow> policy_db" where
  "example_db ps =
    \<lparr>agentToolInvocationPoliciesTable =
        map (\<lambda>p. \<lparr>join_agentId = ''agent-1'', join_policyId = policy_id p\<rparr>) ps,
     toolInvocationPoliciesTable = ps,
     toolsTable = [\<lparr>tool_id = ''tool-1'', tool_name = ''readFile''\<rparr>],
     select_order = (\<lambda>rows. rows)\<rparr>"

text \<open>
  For the route: guardrails that trust nothing and deny exactly the tool \<^verbatim>\<open>sendEmail\<close>, a
  provider that answers every request with the same completion or the same chunks, and
  the three kinds of message. The message of the \<^verbatim>\<open>SyntaxError\<close> of \<^verbatim>\<open>JSON.parse\<close> differs
  between engines; \<open>example_parse\<close> gives one text for it.
\<close>

definition example_guardrails :: guardrails where
  "example_guardrails =
     \<lparr>trustedData_evaluate = (\<lambda>toolName toolCallId output. Inr (False, ''no policy matched'')),
      toolInvocation_evaluate = (\<lambda>toolName toolCallId toolInput.
        Inr (if toolName = ''sendEmail''
             then \<lparr>isAllowed = False, denyReason = ''no email''\<rparr>
             else \<lparr>isAllowed = True, denyReason = ''''\<rparr>))\<rparr>"

definition example_provider :: "chat_response \<Rightarrow> json list \<Rightarrow> llm_provider" where
  "example_provider response chunks =
     \<lparr>chatCompletion = (\<lambda>request. Inr response),
      chatCompletionStream = (\<lambda>request. (chunks, None))\<rparr>"

definition user_message :: "string \<Rightarrow> chat_message" where
  "user_message txt =
     \<lparr>msg_role = ''user'', msg_content = txt, msg_tool_call_id = '''', msg_tool_calls = None\<rparr>"

definition tool_message :: "string \<Rightarrow> string \<Rightarrow> chat_message" where
  "tool_message toolCallId txt =
     \<lparr>msg_role = ''tool'', msg_content = txt, msg_tool_call_id = toolCallId,
      msg_tool_calls = None\<rparr>"

definition assistant_message :: "tool_call list \<Rightarrow> chat_message" where
  "assistant_message calls =
     \<lparr>msg_role = ''assistant'', msg_content = '''', msg_tool_call_id = '''',
      msg_tool_calls = Some calls\<rparr>"

text \<open>
  For the sub-agent: a configuration whose prompts have no placeholder, so that
  \<^verbatim>\<open>replace\<close> leaves them as they are; a sub-agent for the tool-use id \<^verbatim>\<open>tu1\<close>; an LLM whose
  state is the number of calls it has answered, which says \<^verbatim>\<open>DONE\<close> to the first chat call
  and \<^verbatim>\<open>SAFE\<close> to every later one, and gives the same structured reply every time; an
  evaluator that trusts nothing and asks for sanitisation; and a conversation in which the
  assistant calls \<^verbatim>\<open>getEmails\<close> and the user returns its result.
\<close>

definition example_config :: dual_llm_config where
  "example_config =
     \<lparr>mainAgentPrompt = ''Ask about the data.'',
      quarantinedAgentPrompt = ''Answer with an index.'',
      summaryPrompt = ''Summarise.'', maxRounds = 5\<rparr>"

definition example_subagent :: subagent where
  "example_subagent =
     \<lparr>sa_config = example_config, sa_agentId = ''agent-1'', sa_toolCallId = ''tu1'',
      sa_originalUserRequest = ''read my mail'', sa_toolResult = JObject []\<rparr>"

definition example_client :: "json \<Rightarrow> nat dual_llm_client" where
  "example_client reply =
     \<lparr>llm_chat = (\<lambda>l msgs. (Inr (if l = 0 then ''DONE'' else ''SAFE''), Suc l)),
      llm_chatWithSchema = (\<lambda>l msgs. (Inr reply, Suc l))\<rparr>"

definition example_world :: "dual_llm_result list \<Rightarrow> nat world" where
  "example_world rows = \<lparr>w_results = rows, w_llm = 0, w_llm_calls = 0\<rparr>"

definition example_evaluate :: trusted_data_evaluator where
  "example_evaluate agentId toolName toolResult =
     Inr \<lparr>tv_isTrusted = False, tv_isBlocked = False, tv_shouldSanitizeWithDualLlm = True,
          tv_reason = ''no policy matched''\<rparr>"

definition example_messages :: "anthropic_message list" where
  "example_messages =
     [\<lparr>a_role = ''user'', a_content = StringContent ''read my mail''\<rparr>,
      \<lparr>a_role = ''assistant'',
       a_content = BlocksContent [ToolUseBlock ''tu1'' ''getEmails'' (JObject [])]\<rparr>,
      \<lparr>a_role = ''user'',
       a_content = BlocksContent [ToolResultBlock ''tu1'' (JString ''{}''), TextBlock ''go on'']\<rparr>]"

section \<open>The tool-invocation evaluator: properties\<close>

lemma evaluatePolicies_skip_passing:
  "\<forall>q\<in>set pre. evaluatePolicy rt q toolInput = Inr None \<Longrightarrow>
   evaluatePolicies rt (pre @ ps) toolInput = evaluatePolicies rt ps toolInput"
  by (induction pre) auto

lemma evaluatePolicies_all_pass:
  "\<forall>q\<in>set ps. evaluatePolicy rt q toolInput = Inr None \<Longrightarrow>
   evaluatePolicies rt ps toolInput = Inr \<lparr>isAllowed = True, denyReason = ''''\<rparr>"
  by (induction ps) auto

lemmas example_policy_simps =
  evaluateForAgent_def applicablePoliciesForAgent_def joinedPolicies_def example_db_def
  example_policy_def
  evaluatePolicy_def example_runtime_def example_get_def example_compile_def
  conditionMet_def policyDenyReason_def suffix_to_prefix

text \<open>
  An allow policy whose argument is missing denies whatever the other policies say, and
  whatever its position: no evaluation that returns a result allows the call.
\<close>

lemma missing_argument_never_allowed:
  assumes "p \<in> set ps" and "policy_action p = Allow"
    and "lodash_get rt toolInput (argumentName p) = None"
    and "evaluatePolicies rt ps toolInput = Inr r"
  shows "\<not> isAllowed r"
  using assms
proof (induction ps)
  case Nil
  then show ?case by simp
next
  case (Cons q qs)
  show ?case
  proof (cases "evaluatePolicy rt q toolInput")
    case (Inl e)
    with Cons.prems show ?thesis by simp
  next
    case (Inr verdict)
    show ?thesis
    proof (cases verdict)
      case (Some reason)
      with Inr Cons.prems show ?thesis by auto
    next
      case None
      with Inr Cons.prems have "q \<noteq> p"
        by (auto simp: evaluatePolicy_def)
      with None Inr Cons show ?thesis by auto
    qed
  qed
qed

text \<open>
  Claim C2. Let \<open>p\<close> be an applicable policy whose argument \<^verbatim>\<open>_.get\<close> does not find in the
  tool arguments, reached by the loop (the policies before it let the call pass). If \<open>p\<close>
  is an allow policy, the evaluator denies with the reason
  \<^verbatim>\<open>Missing required argument: \<close> followed by the argument name. If \<open>p\<close> is a block policy
  it is skipped: the verdict is that of the policies after it.
\<close>

theorem missing_argument_allow_denies_block_skips:
  assumes "applicablePoliciesForAgent db agentId toolName = pre @ p # post"
    and "\<forall>q\<in>set pre. evaluatePolicy rt q toolInput = Inr None"
    and "lodash_get rt toolInput (argumentName p) = None"
  shows "evaluateForAgent rt db agentId toolName toolInput =
     (case policy_action p of
        Allow \<Rightarrow>
          Inr \<lparr>isAllowed = False,
               denyReason = ''Missing required argument: '' @ argumentName p\<rparr>
      | Block \<Rightarrow> evaluatePolicies rt post toolInput)"
  using assms
  by (simp add: evaluateForAgent_def evaluatePolicies_skip_passing evaluatePolicy_def
      split: action.splits)

text \<open>
  The scenario of the specification: \<^verbatim>\<open>readFile({})\<close> under an allow policy on \<^verbatim>\<open>path\<close>,
  here after a block policy on \<^verbatim>\<open>mode\<close>, whose argument is missing too and which is
  skipped.
\<close>

theorem missing_argument_allow_denies_block_skips_witness:
  "applicablePoliciesForAgent
     (example_db [example_policy ''p1'' ''mode'' Equal ''fast'' Block None,
                  example_policy ''p2'' ''path'' StartsWith ''/home/'' Allow None])
     ''agent-1'' ''readFile''
   = [example_policy ''p1'' ''mode'' Equal ''fast'' Block None]
     @ example_policy ''p2'' ''path'' StartsWith ''/home/'' Allow None # []
   \<and> evaluatePolicy example_runtime
       (example_policy ''p1'' ''mode'' Equal ''fast'' Block None) (JObject []) = Inr None
   \<and> lodash_get example_runtime (JObject [])
       (argumentName (example_policy ''p2'' ''path'' StartsWith ''/home/'' Allow None)) = None
   \<and> evaluateForAgent example_runtime
       (example_db [example_policy ''p1'' ''mode'' Equal ''fast'' Block None,
                    example_policy ''p2'' ''path'' StartsWith ''/home/'' Allow None])
       ''agent-1'' ''readFile'' (JObject [])
     = Inr \<lparr>isAllowed = False, denyReason = ''Missing required argument: path''\<rparr>"
proof -
  let ?p1 = "example_policy ''p1'' ''mode'' Equal ''fast'' Block None"
  let ?p2 = "example_policy ''p2'' ''path'' StartsWith ''/home/'' Allow None"
  have ps: "applicablePoliciesForAgent (example_db [?p1, ?p2]) ''agent-1'' ''readFile''
      = [?p1] @ ?p2 # []"
    by (simp add: applicablePoliciesForAgent_def joinedPolicies_def example_db_def
        example_policy_def)
  have pre: "\<forall>q\<in>set [?p1]. evaluatePolicy example_runtime q (JObject []) = Inr None"
    by (simp add: example_policy_simps)
  have arg: "lodash_get example_runtime (JObject []) (argumentName ?p2) = None"
    by (simp add: example_policy_simps)
  have act: "policy_action ?p2 = Allow" and name: "argumentName ?p2 = ''path''"
    by (simp_all add: example_policy_def)
  from missing_argument_allow_denies_block_skips [OF ps pre arg] act name
  have "evaluateForAgent example_runtime (example_db [?p1, ?p2]) ''agent-1'' ''readFile''
      (JObject []) = Inr \<lparr>isAllowed = False, denyReason = ''Missing required argument: path''\<rparr>"
    by simp
  with ps pre arg show ?thesis by simp
qed

text \<open>
  The rows of the join: the policies of the policy table that a junction row assigns to
  the agent and whose tool has the invoked name.
\<close>

lemma joinedPolicies_set:
  "p \<in> set (joinedPolicies db agentId toolName) \<longleftrightarrow>
     p \<in> set (toolInvocationPoliciesTable db) \<and>
     (\<exists>j\<in>set (agentToolInvocationPoliciesTable db).
        join_agentId j = agentId \<and> join_policyId j = policy_id p) \<and>
     (\<exists>t\<in>set (toolsTable db). tool_id t = policy_toolId p \<and> tool_name t = toolName)"
proof -
  have "p \<in> set (joinedPolicies db agentId toolName) \<longleftrightarrow>
      (\<exists>j\<in>set (agentToolInvocationPoliciesTable db).
         \<exists>q\<in>set (toolInvocationPoliciesTable db).
           \<exists>t\<in>set (toolsTable db).
             join_policyId j = policy_id q \<and> policy_toolId q = tool_id t
             \<and> join_agentId j = agentId \<and> tool_name t = toolName \<and> p = q)"
    by (auto simp: joinedPolicies_def)
  also have "\<dots> \<longleftrightarrow>
     p \<in> set (toolInvocationPoliciesTable db) \<and>
     (\<exists>j\<in>set (agentToolInvocationPoliciesTable db).
        join_agentId j = agentId \<and> join_policyId j = policy_id p) \<and>
     (\<exists>t\<in>set (toolsTable db). tool_id t = policy_toolId p \<and> tool_name t = toolName)"
    by (rule iffI; clarsimp; metis)
  finally show ?thesis .
qed

text \<open>
  The \<^verbatim>\<open>switch\<close> against the table of operators: on an argument value \<open>v\<close> and a policy
  value \<open>pv\<close>, as long as the pattern of a regex policy met with a string compiles.
\<close>

lemma conditionMet_table:
  assumes "\<forall>s. oper = Regex \<and> v = JString s \<longrightarrow>
             (\<exists>compiled. RegExp_compile rt pv = Inr compiled)"
  shows "conditionMet rt oper pv v =
    Inr (case oper of
           EndsWith \<Rightarrow> (\<exists>s. v = JString s \<and> suffix pv s)
         | StartsWith \<Rightarrow> (\<exists>s. v = JString s \<and> prefix pv s)
         | Contains \<Rightarrow> (\<exists>s. v = JString s \<and> sublist pv s)
         | NotContains \<Rightarrow> (\<exists>s. v = JString s \<and> \<not> sublist pv s)
         | Equal \<Rightarrow> v = JString pv
         | NotEqual \<Rightarrow> v \<noteq> JString pv
         | Regex \<Rightarrow>
             (\<exists>s compiled. v = JString s \<and> RegExp_compile rt pv = Inr compiled \<and> compiled s))"
proof (cases oper)
  case Regex
  show ?thesis
  proof (cases v)
    case (JString s)
    with Regex assms obtain compiled where "RegExp_compile rt pv = Inr compiled" by auto
    with Regex JString show ?thesis by (simp add: conditionMet_def)
  qed (simp_all add: Regex conditionMet_def)
next
  case EndsWith
  then show ?thesis by (cases v) (simp_all add: conditionMet_def)
next
  case StartsWith
  then show ?thesis by (cases v) (simp_all add: conditionMet_def)
next
  case Contains
  then show ?thesis by (cases v) (simp_all add: conditionMet_def)
next
  case NotContains
  then show ?thesis by (cases v) (simp_all add: conditionMet_def)
next
  case Equal
  then show ?thesis by (simp add: conditionMet_def)
next
  case NotEqual
  then show ?thesis by (simp add: conditionMet_def)
qed

text \<open>
  Claim C3. The evaluator takes the applicable policies in the order the query returned
  them and the first denial wins.
  \<^item> The applicable policies are the rows of the join, in the order the database returns
    them: the policies assigned to the agent whose tool has the invoked name.
  \<^item> Let the policies before \<open>p\<close> let the call pass and the argument of \<open>p\<close> be present
    with value \<open>v\<close>. The operator matches (\<open>matched\<close>) as follows: \<^verbatim>\<open>equal\<close> when \<open>v\<close> is the
    policy's value, \<^verbatim>\<open>notEqual\<close> when it is not; \<^verbatim>\<open>endsWith\<close>, \<^verbatim>\<open>startsWith\<close>, \<^verbatim>\<open>contains\<close>
    when \<open>v\<close> is a string with the policy's value as suffix, prefix, substring;
    \<^verbatim>\<open>notContains\<close> when \<open>v\<close> is a string without that substring; \<^verbatim>\<open>regex\<close> when \<open>v\<close> is a
    string that the compiled pattern accepts (a pattern that does not compile is left
    aside here). Then a block policy denies exactly when the operator matches and an
    allow policy exactly when it does not, whatever the policies after \<open>p\<close> are; the reason
    is \<^verbatim>\<open>blockPrompt\<close> when it is set and not empty, and \<^verbatim>\<open>Policy violation: \<close> followed by
    the description otherwise. When \<open>p\<close> does not deny, the verdict is that of the
    policies after it.
  \<^item> When every applicable policy lets the call pass, the result is allowed with the
    empty reason.
\<close>

theorem evaluateForAgent_first_denial_wins:
  assumes "applicablePoliciesForAgent db agentId toolName = ps"
  shows
    "(\<exists>rows. ps = select_order db rows \<and>
        (\<forall>p. p \<in> set rows \<longleftrightarrow>
           p \<in> set (toolInvocationPoliciesTable db) \<and>
           (\<exists>j\<in>set (agentToolInvocationPoliciesTable db).
              join_agentId j = agentId \<and> join_policyId j = policy_id p) \<and>
           (\<exists>t\<in>set (toolsTable db). tool_id t = policy_toolId p \<and> tool_name t = toolName)))
     \<and> (\<forall>pre p post v matched.
        ps = pre @ p # post \<and>
        (\<forall>q\<in>set pre. evaluatePolicy rt q toolInput = Inr None) \<and>
        lodash_get rt toolInput (argumentName p) = Some v \<and>
        (\<forall>s. policy_operator p = Regex \<and> v = JString s \<longrightarrow>
             (\<exists>compiled. RegExp_compile rt (policyValue p) = Inr compiled)) \<and>
        matched =
          (case policy_operator p of
             EndsWith \<Rightarrow> (\<exists>s. v = JString s \<and> suffix (policyValue p) s)
           | StartsWith \<Rightarrow> (\<exists>s. v = JString s \<and> prefix (policyValue p) s)
           | Contains \<Rightarrow> (\<exists>s. v = JString s \<and> sublist (policyValue p) s)
           | NotContains \<Rightarrow> (\<exists>s. v = JString s \<and> \<not> sublist (policyValue p) s)
           | Equal \<Rightarrow> v = JString (policyValue p)
           | NotEqual \<Rightarrow> v \<noteq> JString (policyValue p)
           | Regex \<Rightarrow>
               (\<exists>s compiled. v = JString s \<and>
                  RegExp_compile rt (policyValue p) = Inr compiled \<and> compiled s)) \<longrightarrow>
        evaluateForAgent rt db agentId toolName toolInput =
          (if (policy_action p = Block \<and> matched) \<or> (policy_action p = Allow \<and> \<not> matched)
           then Inr \<lparr>isAllowed = False,
                     denyReason =
                       (case blockPrompt p of
                          None \<Rightarrow> ''Policy violation: '' @ description p
                        | Some b \<Rightarrow>
                            if b = [] then ''Policy violation: '' @ description p else b)\<rparr>
           else evaluatePolicies rt post toolInput))
     \<and> ((\<forall>q\<in>set ps. evaluatePolicy rt q toolInput = Inr None) \<longrightarrow>
          evaluateForAgent rt db agentId toolName toolInput =
            Inr \<lparr>isAllowed = True, denyReason = ''''\<rparr>)"
proof (intro conjI allI impI)
  from assms have "ps = select_order db (joinedPolicies db agentId toolName)"
    by (simp add: applicablePoliciesForAgent_def)
  then show "\<exists>rows. ps = select_order db rows \<and>
        (\<forall>p. p \<in> set rows \<longleftrightarrow>
           p \<in> set (toolInvocationPoliciesTable db) \<and>
           (\<exists>j\<in>set (agentToolInvocationPoliciesTable db).
              join_agentId j = agentId \<and> join_policyId j = policy_id p) \<and>
           (\<exists>t\<in>set (toolsTable db). tool_id t = policy_toolId p \<and> tool_name t = toolName))"
    using joinedPolicies_set [of _ db agentId toolName] by blast
next
  fix pre p post v matched
  assume h: "ps = pre @ p # post \<and>
        (\<forall>q\<in>set pre. evaluatePolicy rt q toolInput = Inr None) \<and>
        lodash_get rt toolInput (argumentName p) = Some v \<and>
        (\<forall>s. policy_operator p = Regex \<and> v = JString s \<longrightarrow>
             (\<exists>compiled. RegExp_compile rt (policyValue p) = Inr compiled)) \<and>
        matched =
          (case policy_operator p of
             EndsWith \<Rightarrow> (\<exists>s. v = JString s \<and> suffix (policyValue p) s)
           | StartsWith \<Rightarrow> (\<exists>s. v = JString s \<and> prefix (policyValue p) s)
           | Contains \<Rightarrow> (\<exists>s. v = JString s \<and> sublist (policyValue p) s)
           | NotContains \<Rightarrow> (\<exists>s. v = JString s \<and> \<not> sublist (policyValue p) s)
           | Equal \<Rightarrow> v = JString (policyValue p)
           | NotEqual \<Rightarrow> v \<noteq> JString (policyValue p)
           | Regex \<Rightarrow>
               (\<exists>s compiled. v = JString s \<and>
                  RegExp_compile rt (policyValue p) = Inr compiled \<and> compiled s))"
  then have compiles: "\<forall>s. policy_operator p = Regex \<and> v = JString s \<longrightarrow>
             (\<exists>compiled. RegExp_compile rt (policyValue p) = Inr compiled)"
    by blast
  from h have met: "conditionMet rt (policy_operator p) (policyValue p) v = Inr matched"
    using conditionMet_table [OF compiles] by simp
  from h have "evaluateForAgent rt db agentId toolName toolInput =
      evaluatePolicies rt (p # post) toolInput"
    using assms by (simp add: evaluateForAgent_def evaluatePolicies_skip_passing)
  moreover have "evaluatePolicy rt p toolInput =
      (if (policy_action p = Block \<and> matched) \<or> (policy_action p = Allow \<and> \<not> matched)
       then Inr (Some (policyDenyReason p)) else Inr None)"
    using h met by (cases "policy_action p") (simp_all add: evaluatePolicy_def)
  ultimately show "evaluateForAgent rt db agentId toolName toolInput =
          (if (policy_action p = Block \<and> matched) \<or> (policy_action p = Allow \<and> \<not> matched)
           then Inr \<lparr>isAllowed = False,
                     denyReason =
                       (case blockPrompt p of
                          None \<Rightarrow> ''Policy violation: '' @ description p
                        | Some b \<Rightarrow>
                            if b = [] then ''Policy violation: '' @ description p else b)\<rparr>
           else evaluatePolicies rt post toolInput)"
    by (simp add: policyDenyReason_def)
next
  assume "\<forall>q\<in>set ps. evaluatePolicy rt q toolInput = Inr None"
  then show "evaluateForAgent rt db agentId toolName toolInput =
      Inr \<lparr>isAllowed = True, denyReason = ''''\<rparr>"
    using assms by (simp add: evaluateForAgent_def evaluatePolicies_all_pass)
qed

lemmas example_operator_simps =
  example_policy_def example_runtime_def example_get_def example_compile_def
  evaluatePolicy_def conditionMet_def policyDenyReason_def suffix_to_prefix sublist_code

text \<open>
  Policies on \<^verbatim>\<open>path\<close>, met with \<^verbatim>\<open>/etc/passwd\<close>.
  \<^item> An allow policy that matches, a block policy with a prompt that matches, and a block
    policy that would match as well: the second one decides, with its prompt.
  \<^item> An allow policy \<^verbatim>\<open>startsWith /home/\<close> does not match and denies.
  \<^item> A block policy \<^verbatim>\<open>endsWith .txt\<close> does not match and does not deny; the block policy
    after it decides.
  \<^item> A block policy \<^verbatim>\<open>regex etc\<close> matches and denies.
  \<^item> With the matching allow policy alone the call is allowed.
  \<^item> The three policies of the first item in a database that returns the rows of a query
    in the reverse order: the third policy is the first one retrieved, and it decides.
\<close>

theorem evaluateForAgent_first_denial_wins_witness:
  "applicablePoliciesForAgent
     (example_db [example_policy ''p1'' ''path'' StartsWith ''/etc'' Allow None,
                  example_policy ''p2'' ''path'' EndsWith ''passwd'' Block (Some ''no secrets''),
                  example_policy ''p3'' ''path'' Contains ''etc'' Block None])
     ''agent-1'' ''readFile''
   = [example_policy ''p1'' ''path'' StartsWith ''/etc'' Allow None]
     @ example_policy ''p2'' ''path'' EndsWith ''passwd'' Block (Some ''no secrets'')
     # [example_policy ''p3'' ''path'' Contains ''etc'' Block None]
   \<and> evaluatePolicy example_runtime (example_policy ''p1'' ''path'' StartsWith ''/etc'' Allow None)
        (JObject [(''path'', JString ''/etc/passwd'')]) = Inr None
   \<and> lodash_get example_runtime (JObject [(''path'', JString ''/etc/passwd'')]) ''path''
        = Some (JString ''/etc/passwd'')
   \<and> evaluateForAgent example_runtime
       (example_db [example_policy ''p1'' ''path'' StartsWith ''/etc'' Allow None,
                    example_policy ''p2'' ''path'' EndsWith ''passwd'' Block (Some ''no secrets''),
                    example_policy ''p3'' ''path'' Contains ''etc'' Block None])
       ''agent-1'' ''readFile'' (JObject [(''path'', JString ''/etc/passwd'')])
     = Inr \<lparr>isAllowed = False, denyReason = ''no secrets''\<rparr>
   \<and> evaluateForAgent example_runtime
       (example_db [example_policy ''p1'' ''path'' StartsWith ''/home/'' Allow None])
       ''agent-1'' ''readFile'' (JObject [(''path'', JString ''/etc/passwd'')])
     = Inr \<lparr>isAllowed = False, denyReason = ''Policy violation: rule p1''\<rparr>
   \<and> evaluateForAgent example_runtime
       (example_db [example_policy ''p1'' ''path'' EndsWith ''.txt'' Block None,
                    example_policy ''p3'' ''path'' Contains ''etc'' Block None])
       ''agent-1'' ''readFile'' (JObject [(''path'', JString ''/etc/passwd'')])
     = Inr \<lparr>isAllowed = False, denyReason = ''Policy violation: rule p3''\<rparr>
   \<and> evaluateForAgent example_runtime
       (example_db [example_policy ''p1'' ''path'' Regex ''etc'' Block None])
       ''agent-1'' ''readFile'' (JObject [(''path'', JString ''/etc/passwd'')])
     = Inr \<lparr>isAllowed = False, denyReason = ''Policy violation: rule p1''\<rparr>
   \<and> evaluateForAgent example_runtime
       (example_db [example_policy ''p1'' ''path'' StartsWith ''/etc'' Allow None])
       ''agent-1'' ''readFile'' (JObject [(''path'', JString ''/etc/passwd'')])
     = Inr \<lparr>isAllowed = True, denyReason = ''''\<rparr>
   \<and> evaluateForAgent example_runtime
       ((example_db [example_policy ''p1'' ''path'' StartsWith ''/etc'' Allow None,
                     example_policy ''p2'' ''path'' EndsWith ''passwd'' Block (Some ''no secrets''),
                     example_policy ''p3'' ''path'' Contains ''etc'' Block None])
          \<lparr>select_order := rev\<rparr>)
       ''agent-1'' ''readFile'' (JObject [(''path'', JString ''/etc/passwd'')])
     = Inr \<lparr>isAllowed = False, denyReason = ''Policy violation: rule p3''\<rparr>"
proof -
  let ?p1 = "example_policy ''p1'' ''path'' StartsWith ''/etc'' Allow None"
  let ?p2 = "example_policy ''p2'' ''path'' EndsWith ''passwd'' Block (Some ''no secrets'')"
  let ?p3 = "example_policy ''p3'' ''path'' Contains ''etc'' Block None"
  let ?a1 = "example_policy ''p1'' ''path'' StartsWith ''/home/'' Allow None"
  let ?b1 = "example_policy ''p1'' ''path'' EndsWith ''.txt'' Block None"
  let ?r1 = "example_policy ''p1'' ''path'' Regex ''etc'' Block None"
  let ?v = "JString ''/etc/passwd''"
  let ?input = "JObject [(''path'', ?v)]"
  note query = applicablePoliciesForAgent_def joinedPolicies_def example_db_def example_policy_def
  have ps: "applicablePoliciesForAgent (example_db [?p1, ?p2, ?p3]) ''agent-1'' ''readFile''
      = [?p1] @ ?p2 # [?p3]"
    by (simp add: query)
  have ps_a: "applicablePoliciesForAgent (example_db [?a1]) ''agent-1'' ''readFile''
      = [] @ ?a1 # []"
    by (simp add: query)
  have ps_b: "applicablePoliciesForAgent (example_db [?b1, ?p3]) ''agent-1'' ''readFile''
      = [] @ ?b1 # [?p3]"
    by (simp add: query)
  have ps_r: "applicablePoliciesForAgent (example_db [?r1]) ''agent-1'' ''readFile''
      = [] @ ?r1 # []"
    by (simp add: query)
  have ps1: "applicablePoliciesForAgent (example_db [?p1]) ''agent-1'' ''readFile'' = [?p1]"
    by (simp add: query)
  have ps_rev: "applicablePoliciesForAgent ((example_db [?p1, ?p2, ?p3])\<lparr>select_order := rev\<rparr>)
      ''agent-1'' ''readFile'' = [] @ ?p3 # [?p2, ?p1]"
    by (simp add: query)
  have p1: "evaluatePolicy example_runtime ?p1 ?input = Inr None"
    by (simp add: example_operator_simps)
  have arg: "lodash_get example_runtime ?input ''path'' = Some ?v"
    by (simp add: example_operator_simps)
  note inst = evaluateForAgent_first_denial_wins
    [where rt = example_runtime and toolInput = ?input, THEN conjunct2]
  from inst [OF ps, THEN conjunct1, rule_format,
      where pre = "[?p1]" and p = ?p2 and post = "[?p3]" and v = ?v and matched = True]
  have second: "evaluateForAgent example_runtime (example_db [?p1, ?p2, ?p3]) ''agent-1''
      ''readFile'' ?input = Inr \<lparr>isAllowed = False, denyReason = ''no secrets''\<rparr>"
    by (simp add: example_operator_simps)
  from inst [OF ps_a, THEN conjunct1, rule_format,
      where pre = "[]" and p = ?a1 and post = "[]" and v = ?v and matched = False]
  have allow_mismatch: "evaluateForAgent example_runtime (example_db [?a1]) ''agent-1''
      ''readFile'' ?input
      = Inr \<lparr>isAllowed = False, denyReason = ''Policy violation: rule p1''\<rparr>"
    by (simp add: example_operator_simps)
  from inst [OF ps_b, THEN conjunct1, rule_format,
      where pre = "[]" and p = ?b1 and post = "[?p3]" and v = ?v and matched = False]
  have block_mismatch: "evaluateForAgent example_runtime (example_db [?b1, ?p3]) ''agent-1''
      ''readFile'' ?input
      = Inr \<lparr>isAllowed = False, denyReason = ''Policy violation: rule p3''\<rparr>"
    by (simp add: example_operator_simps)
  from inst [OF ps_r, THEN conjunct1, rule_format,
      where pre = "[]" and p = ?r1 and post = "[]" and v = ?v and matched = True]
  have regex: "evaluateForAgent example_runtime (example_db [?r1]) ''agent-1''
      ''readFile'' ?input
      = Inr \<lparr>isAllowed = False, denyReason = ''Policy violation: rule p1''\<rparr>"
    by (simp add: example_operator_simps)
  from inst [OF ps_rev, THEN conjunct1, rule_format,
      where pre = "[]" and p = ?p3 and post = "[?p2, ?p1]" and v = ?v and matched = True]
  have reversed: "evaluateForAgent example_runtime
      ((example_db [?p1, ?p2, ?p3])\<lparr>select_order := rev\<rparr>) ''agent-1'' ''readFile'' ?input
      = Inr \<lparr>isAllowed = False, denyReason = ''Policy violation: rule p3''\<rparr>"
    by (simp add: example_operator_simps)
  have "\<forall>q\<in>set [?p1]. evaluatePolicy example_runtime q ?input = Inr None"
    using p1 by simp
  then have allowed: "evaluateForAgent example_runtime (example_db [?p1]) ''agent-1'' ''readFile''
      ?input = Inr \<lparr>isAllowed = True, denyReason = ''''\<rparr>"
    by (rule inst [OF ps1, THEN conjunct2, THEN mp])
  show ?thesis
    by (intro conjI ps p1 arg second allow_mismatch block_mismatch regex allowed reversed)
qed

text \<open>
  Claim C6, as the specification states it, fails: a regex policy whose pattern does not
  compile, met with a string argument, makes \<^verbatim>\<open>new RegExp\<close> throw, and nothing between the
  \<^verbatim>\<open>switch\<close> and the caller catches it. The evaluator returns no verdict.
\<close>

theorem invalid_regex_counterexample:
  "evaluateForAgent example_runtime
     (example_db [example_policy ''p1'' ''path'' Regex ''('' Block None])
     ''agent-1'' ''readFile'' (JObject [(''path'', JString ''/etc/passwd'')])
   = Inl (JsError None ''Invalid regular expression: /(/: Unterminated group'')"
  by (simp add: example_policy_simps)

text \<open>
  Claim C6, amended. Let \<open>p\<close> be a regex policy whose pattern does not compile, reached by
  the loop. If its argument is a string, the evaluator throws the \<^verbatim>\<open>SyntaxError\<close> of
  \<^verbatim>\<open>new RegExp\<close>: the policy is not skipped and there is no verdict. If the argument is
  missing, or is not a string, the pattern is never compiled: a missing argument is
  handled as for any policy, and any other value counts as a failed match, so that a block
  policy lets the call go on to the next policy and an allow policy denies.
\<close>

theorem invalid_regex_propagates:
  assumes "applicablePoliciesForAgent db agentId toolName = pre @ p # post"
    and "\<forall>q\<in>set pre. evaluatePolicy rt q toolInput = Inr None"
    and "policy_operator p = Regex"
    and "RegExp_compile rt (policyValue p) = Inl m"
  shows "evaluateForAgent rt db agentId toolName toolInput =
     (case lodash_get rt toolInput (argumentName p) of
        None \<Rightarrow>
          (case policy_action p of
             Allow \<Rightarrow>
               Inr \<lparr>isAllowed = False,
                    denyReason = ''Missing required argument: '' @ argumentName p\<rparr>
           | Block \<Rightarrow> evaluatePolicies rt post toolInput)
      | Some (JString s) \<Rightarrow> Inl (JsError None m)
      | Some other \<Rightarrow>
          (case policy_action p of
             Allow \<Rightarrow> Inr \<lparr>isAllowed = False, denyReason = policyDenyReason p\<rparr>
           | Block \<Rightarrow> evaluatePolicies rt post toolInput))"
proof -
  have "evaluateForAgent rt db agentId toolName toolInput =
      evaluatePolicies rt (p # post) toolInput"
    using assms(1,2) by (simp add: evaluateForAgent_def evaluatePolicies_skip_passing)
  then show ?thesis
    using assms(3,4)
    by (simp add: evaluatePolicy_def conditionMet_def
        split: option.splits json.splits action.splits)
qed

theorem invalid_regex_propagates_witness:
  "applicablePoliciesForAgent
     (example_db [example_policy ''p1'' ''mode'' Equal ''fast'' Block None,
                  example_policy ''p2'' ''path'' Regex ''('' Allow None])
     ''agent-1'' ''readFile''
   = [example_policy ''p1'' ''mode'' Equal ''fast'' Block None]
     @ example_policy ''p2'' ''path'' Regex ''('' Allow None # []
   \<and> evaluatePolicy example_runtime (example_policy ''p1'' ''mode'' Equal ''fast'' Block None)
        (JObject [(''path'', JString ''/etc/passwd'')]) = Inr None
   \<and> RegExp_compile example_runtime ''(''
        = Inl ''Invalid regular expression: /(/: Unterminated group''
   \<and> evaluateForAgent example_runtime
       (example_db [example_policy ''p1'' ''mode'' Equal ''fast'' Block None,
                    example_policy ''p2'' ''path'' Regex ''('' Allow None])
       ''agent-1'' ''readFile'' (JObject [(''path'', JString ''/etc/passwd'')])
     = Inl (JsError None ''Invalid regular expression: /(/: Unterminated group'')"
proof -
  let ?p1 = "example_policy ''p1'' ''mode'' Equal ''fast'' Block None"
  let ?p2 = "example_policy ''p2'' ''path'' Regex ''('' Allow None"
  let ?input = "JObject [(''path'', JString ''/etc/passwd'')]"
  have ps: "applicablePoliciesForAgent (example_db [?p1, ?p2]) ''agent-1'' ''readFile''
      = [?p1] @ ?p2 # []"
    by (simp add: applicablePoliciesForAgent_def joinedPolicies_def example_db_def
        example_policy_def)
  have pre: "\<forall>q\<in>set [?p1]. evaluatePolicy example_runtime q ?input = Inr None"
    by (simp add: example_policy_simps)
  have oper: "policy_operator ?p2 = Regex"
    by (simp add: example_policy_def)
  have bad: "RegExp_compile example_runtime (policyValue ?p2)
      = Inl ''Invalid regular expression: /(/: Unterminated group''"
    by (simp add: example_policy_simps)
  have arg: "lodash_get example_runtime ?input (argumentName ?p2) = Some (JString ''/etc/passwd'')"
    by (simp add: example_policy_simps)
  from invalid_regex_propagates [OF ps pre oper bad] arg
  have "evaluateForAgent example_runtime (example_db [?p1, ?p2]) ''agent-1'' ''readFile'' ?input
      = Inl (JsError None ''Invalid regular expression: /(/: Unterminated group'')"
    by simp
  with ps pre bad show ?thesis by (simp add: example_policy_def)
qed

section \<open>The proxy route: properties\<close>

lemma evaluateToolCalls_skip_allowed:
  "\<forall>c\<in>set pre. toolCallAllowed rt g c \<Longrightarrow>
   evaluateToolCalls rt g (pre @ rest) = evaluateToolCalls rt g rest"
proof (induction pre)
  case Nil
  then show ?case by simp
next
  case (Cons c pre)
  then show ?case
    by (cases c) (auto simp: toolCallAllowed_def split: sum.splits)
qed

lemma evaluateToolCalls_all_allowed:
  "\<forall>c\<in>set calls. toolCallAllowed rt g c \<Longrightarrow> evaluateToolCalls rt g calls = Inr None"
  using evaluateToolCalls_skip_allowed [of calls rt g "[]"] by simp

text \<open>
  The handler on a request that gets as far as the upstream completion: the chat exists,
  the first loop and the storing of the user message did not throw, the request is not a
  streaming one, and the provider answered with at least one choice.
\<close>

lemma chatCompletions_unary:
  assumes "chatId \<in> set chats"
    and "processToolMessages rt g chatId (req_messages request) store = (None, store1)"
    and "storeUserMessage chatId (req_messages request) store1 = Inr store2"
    and "\<not> req_stream request"
  shows "chatCompletions rt g llm chats store chatId request =
     unaryCompletion rt g llm chatId request store2"
  using assms by (simp add: chatCompletions_def)

text \<open>
  Claim C1. Take a non-streaming request whose upstream response has tool calls in the
  message of its first choice. The function tool calls are decoded and evaluated in
  order. At the first one the evaluator does not allow, the handler replies 403 with the
  body \<^verbatim>\<open>{error: {message: denyReason, type: "tool_invocation_blocked"}}\<close> and the
  interactions table is what it was before the upstream call: the assistant message is
  not stored. When every tool call passes, the assistant message is stored as an
  untainted interaction and the reply is the upstream response, with status 200.
\<close>

theorem tool_call_gate_blocks_first_denial:
  assumes "chatId \<in> set chats"
    and "processToolMessages rt g chatId (req_messages request) store = (None, store1)"
    and "storeUserMessage chatId (req_messages request) store1 = Inr store2"
    and "\<not> req_stream request"
    and "chatCompletion llm request = Inr response"
    and "resp_choices response = assistantMessage # others"
    and "msg_tool_calls assistantMessage = Some calls"
  shows
    "(\<forall>pre cid name arguments post toolInput verdict.
        calls = pre @ FunctionToolCall cid name arguments # post \<and>
        (\<forall>c\<in>set pre. toolCallAllowed rt g c) \<and>
        JSON_parse rt arguments = Inr toolInput \<and>
        toolInvocation_evaluate g name cid toolInput = Inr verdict \<and>
        \<not> isAllowed verdict \<longrightarrow>
        chatCompletions rt g llm chats store chatId request =
          \<lparr>interactions = store2, raw_written = [],
           sent = Some \<lparr>reply_status = 403,
                        reply_body = ErrorBody (denyReason verdict)
                                       ''tool_invocation_blocked''\<rparr>\<rparr>)
     \<and> ((\<forall>c\<in>set calls. toolCallAllowed rt g c) \<longrightarrow>
          chatCompletions rt g llm chats store chatId request =
            \<lparr>interactions =
               store2 @ [\<lparr>int_chatId = chatId, int_content = assistantMessage,
                          tainted = False, taintReason = None\<rparr>],
             raw_written = [],
             sent = Some \<lparr>reply_status = 200, reply_body = CompletionBody response\<rparr>\<rparr>)"
proof (intro conjI allI impI)
  fix pre cid name arguments post toolInput verdict
  assume h: "calls = pre @ FunctionToolCall cid name arguments # post \<and>
        (\<forall>c\<in>set pre. toolCallAllowed rt g c) \<and>
        JSON_parse rt arguments = Inr toolInput \<and>
        toolInvocation_evaluate g name cid toolInput = Inr verdict \<and>
        \<not> isAllowed verdict"
  then have "evaluateToolCalls rt g calls = Inr (Some (denyReason verdict))"
    by (simp add: evaluateToolCalls_skip_allowed)
  then show "chatCompletions rt g llm chats store chatId request =
          \<lparr>interactions = store2, raw_written = [],
           sent = Some \<lparr>reply_status = 403,
                        reply_body = ErrorBody (denyReason verdict)
                                       ''tool_invocation_blocked''\<rparr>\<rparr>"
    using assms by (simp add: chatCompletions_unary unaryCompletion_def)
next
  assume "\<forall>c\<in>set calls. toolCallAllowed rt g c"
  then have "evaluateToolCalls rt g calls = Inr None"
    by (rule evaluateToolCalls_all_allowed)
  then show "chatCompletions rt g llm chats store chatId request =
            \<lparr>interactions =
               store2 @ [\<lparr>int_chatId = chatId, int_content = assistantMessage,
                          tainted = False, taintReason = None\<rparr>],
             raw_written = [],
             sent = Some \<lparr>reply_status = 200, reply_body = CompletionBody response\<rparr>\<rparr>"
    using assms
    by (simp add: chatCompletions_unary unaryCompletion_def InteractionModel_create_def)
qed

lemmas example_route_simps =
  example_runtime_def example_parse_def example_guardrails_def example_provider_def
  user_message_def tool_message_def assistant_message_def toolCallAllowed_def
  storeUserMessage_def InteractionModel_create_def

text \<open>
  A user asks; the assistant proposes \<^verbatim>\<open>readFile({})\<close>, then \<^verbatim>\<open>sendEmail({})\<close>, then
  another \<^verbatim>\<open>readFile({})\<close>. The second call is denied: 403, and only the user message is
  stored. With the two \<^verbatim>\<open>readFile\<close> calls alone the response goes through and the
  assistant message is stored after the user message.
\<close>

theorem tool_call_gate_blocks_first_denial_witness:
  "''chat-1'' \<in> set [''chat-1'']
   \<and> processToolMessages example_runtime example_guardrails ''chat-1'' [user_message ''hi''] []
       = (None, [])
   \<and> storeUserMessage ''chat-1'' [user_message ''hi''] []
       = Inr [\<lparr>int_chatId = ''chat-1'', int_content = user_message ''hi'',
                tainted = False, taintReason = None\<rparr>]
   \<and> toolCallAllowed example_runtime example_guardrails
        (FunctionToolCall ''call-1'' ''readFile'' ''{}'')
   \<and> JSON_parse example_runtime ''{}'' = Inr (JObject [])
   \<and> toolInvocation_evaluate example_guardrails ''sendEmail'' ''call-2'' (JObject [])
       = Inr \<lparr>isAllowed = False, denyReason = ''no email''\<rparr>
   \<and> chatCompletions example_runtime example_guardrails
        (example_provider
           \<lparr>resp_id = ''r1'',
            resp_choices = [assistant_message
              [FunctionToolCall ''call-1'' ''readFile'' ''{}'',
               FunctionToolCall ''call-2'' ''sendEmail'' ''{}'',
               FunctionToolCall ''call-3'' ''readFile'' ''{}'']]\<rparr> [])
        [''chat-1''] [] ''chat-1''
        \<lparr>req_model = ''m'', req_messages = [user_message ''hi''], req_stream = False\<rparr>
       = \<lparr>interactions = [\<lparr>int_chatId = ''chat-1'', int_content = user_message ''hi'',
                             tainted = False, taintReason = None\<rparr>],
          raw_written = [],
          sent = Some \<lparr>reply_status = 403,
                       reply_body = ErrorBody ''no email'' ''tool_invocation_blocked''\<rparr>\<rparr>
   \<and> chatCompletions example_runtime example_guardrails
        (example_provider
           \<lparr>resp_id = ''r2'',
            resp_choices = [assistant_message
              [FunctionToolCall ''call-1'' ''readFile'' ''{}'',
               FunctionToolCall ''call-3'' ''readFile'' ''{}'']]\<rparr> [])
        [''chat-1''] [] ''chat-1''
        \<lparr>req_model = ''m'', req_messages = [user_message ''hi''], req_stream = False\<rparr>
       = \<lparr>interactions = [\<lparr>int_chatId = ''chat-1'', int_content = user_message ''hi'',
                             tainted = False, taintReason = None\<rparr>,
                          \<lparr>int_chatId = ''chat-1'',
                           int_content = assistant_message
                             [FunctionToolCall ''call-1'' ''readFile'' ''{}'',
                              FunctionToolCall ''call-3'' ''readFile'' ''{}''],
                           tainted = False, taintReason = None\<rparr>],
          raw_written = [],
          sent = Some \<lparr>reply_status = 200,
                       reply_body = CompletionBody
                         \<lparr>resp_id = ''r2'',
                          resp_choices = [assistant_message
                            [FunctionToolCall ''call-1'' ''readFile'' ''{}'',
                             FunctionToolCall ''call-3'' ''readFile'' ''{}'']]\<rparr>\<rparr>\<rparr>"
proof -
  let ?c1 = "FunctionToolCall ''call-1'' ''readFile'' ''{}''"
  let ?c2 = "FunctionToolCall ''call-2'' ''sendEmail'' ''{}''"
  let ?c3 = "FunctionToolCall ''call-3'' ''readFile'' ''{}''"
  let ?r1 = "\<lparr>resp_id = ''r1'', resp_choices = [assistant_message [?c1, ?c2, ?c3]]\<rparr>"
  let ?r2 = "\<lparr>resp_id = ''r2'', resp_choices = [assistant_message [?c1, ?c3]]\<rparr>"
  let ?request = "\<lparr>req_model = ''m'', req_messages = [user_message ''hi''], req_stream = False\<rparr>"
  let ?stored = "[\<lparr>int_chatId = ''chat-1'', int_content = user_message ''hi'',
                   tainted = False, taintReason = None\<rparr>]"
  have chat: "''chat-1'' \<in> set [''chat-1'']" by simp
  have ingress: "processToolMessages example_runtime example_guardrails ''chat-1''
      (req_messages ?request) [] = (None, [])"
    by (simp add: user_message_def)
  have user: "storeUserMessage ''chat-1'' (req_messages ?request) [] = Inr ?stored"
    by (simp add: example_route_simps)
  have unary: "\<not> req_stream ?request" by simp
  have up1: "chatCompletion (example_provider ?r1 []) ?request = Inr ?r1"
    and up2: "chatCompletion (example_provider ?r2 []) ?request = Inr ?r2"
    by (simp_all add: example_provider_def)
  have ch1: "resp_choices ?r1 = assistant_message [?c1, ?c2, ?c3] # []"
    and ch2: "resp_choices ?r2 = assistant_message [?c1, ?c3] # []"
    by simp_all
  have calls1: "msg_tool_calls (assistant_message [?c1, ?c2, ?c3]) = Some [?c1, ?c2, ?c3]"
    and calls2: "msg_tool_calls (assistant_message [?c1, ?c3]) = Some [?c1, ?c3]"
    by (simp_all add: assistant_message_def)
  have ok1: "toolCallAllowed example_runtime example_guardrails ?c1"
    and ok3: "toolCallAllowed example_runtime example_guardrails ?c3"
    by (simp_all add: example_route_simps)
  have parse: "JSON_parse example_runtime ''{}'' = Inr (JObject [])"
    by (simp add: example_route_simps)
  have deny: "toolInvocation_evaluate example_guardrails ''sendEmail'' ''call-2'' (JObject [])
      = Inr \<lparr>isAllowed = False, denyReason = ''no email''\<rparr>"
    by (simp add: example_guardrails_def)
  have hyps: "[?c1, ?c2, ?c3] = [?c1] @ ?c2 # [?c3] \<and>
      (\<forall>c\<in>set [?c1]. toolCallAllowed example_runtime example_guardrails c) \<and>
      JSON_parse example_runtime ''{}'' = Inr (JObject []) \<and>
      toolInvocation_evaluate example_guardrails ''sendEmail'' ''call-2'' (JObject [])
        = Inr \<lparr>isAllowed = False, denyReason = ''no email''\<rparr> \<and>
      \<not> isAllowed \<lparr>isAllowed = False, denyReason = ''no email''\<rparr>"
    using ok1 parse deny by simp
  have blocked: "chatCompletions example_runtime example_guardrails (example_provider ?r1 [])
      [''chat-1''] [] ''chat-1'' ?request =
      \<lparr>interactions = ?stored, raw_written = [],
       sent = Some \<lparr>reply_status = 403,
                    reply_body = ErrorBody (denyReason \<lparr>isAllowed = False, denyReason = ''no email''\<rparr>)
                                   ''tool_invocation_blocked''\<rparr>\<rparr>"
    by (rule tool_call_gate_blocks_first_denial
        [OF chat ingress user unary up1 ch1 calls1, THEN conjunct1, rule_format, OF hyps])
  have "\<forall>c\<in>set [?c1, ?c3]. toolCallAllowed example_runtime example_guardrails c"
    using ok1 ok3 by simp
  then have passed: "chatCompletions example_runtime example_guardrails (example_provider ?r2 [])
      [''chat-1''] [] ''chat-1'' ?request =
      \<lparr>interactions =
         ?stored @ [\<lparr>int_chatId = ''chat-1'', int_content = assistant_message [?c1, ?c3],
                     tainted = False, taintReason = None\<rparr>],
       raw_written = [],
       sent = Some \<lparr>reply_status = 200, reply_body = CompletionBody ?r2\<rparr>\<rparr>"
    by (rule tool_call_gate_blocks_first_denial
        [OF chat ingress user unary up2 ch2 calls2, THEN conjunct2, THEN mp])
  from ingress have ingress': "processToolMessages example_runtime example_guardrails ''chat-1''
      [user_message ''hi''] [] = (None, [])"
    by simp
  from user have user': "storeUserMessage ''chat-1'' [user_message ''hi''] [] = Inr ?stored"
    by simp
  from blocked have blocked': "chatCompletions example_runtime example_guardrails
      (example_provider ?r1 []) [''chat-1''] [] ''chat-1'' ?request =
      \<lparr>interactions = ?stored, raw_written = [],
       sent = Some \<lparr>reply_status = 403,
                    reply_body = ErrorBody ''no email'' ''tool_invocation_blocked''\<rparr>\<rparr>"
    by simp
  from passed have passed': "chatCompletions example_runtime example_guardrails
      (example_provider ?r2 []) [''chat-1''] [] ''chat-1'' ?request =
      \<lparr>interactions =
         [\<lparr>int_chatId = ''chat-1'', int_content = user_message ''hi'',
           tainted = False, taintReason = None\<rparr>,
          \<lparr>int_chatId = ''chat-1'', int_content = assistant_message [?c1, ?c3],
           tainted = False, taintReason = None\<rparr>],
       raw_written = [],
       sent = Some \<lparr>reply_status = 200, reply_body = CompletionBody ?r2\<rparr>\<rparr>"
    by simp
  show ?thesis
    by (intro conjI chat ingress' user' ok1 parse deny blocked' passed')
qed

text \<open>
  Claim C7, as the specification states it, fails: the assistant proposes one function
  tool call whose arguments are the text \<^verbatim>\<open>{oops\<close>. \<^verbatim>\<open>JSON.parse\<close> throws inside the
  \<^verbatim>\<open>try\<close>, the \<^verbatim>\<open>catch\<close> block answers, and the reply is a 500 of type \<^verbatim>\<open>api_error\<close> whose
  message is the parser's: not a denial, and not the reason
  \<^verbatim>\<open>unparseable tool arguments\<close>.
\<close>

theorem unparseable_arguments_counterexample:
  "chatCompletions example_runtime example_guardrails
     (example_provider
        \<lparr>resp_id = ''r1'',
         resp_choices = [assistant_message [FunctionToolCall ''call-1'' ''readFile'' ''{oops'']]\<rparr>
        [])
     [''chat-1''] [] ''chat-1''
     \<lparr>req_model = ''m'', req_messages = [user_message ''hi''], req_stream = False\<rparr>
   = \<lparr>interactions = [\<lparr>int_chatId = ''chat-1'', int_content = user_message ''hi'',
                         tainted = False, taintReason = None\<rparr>],
      raw_written = [],
      sent = Some \<lparr>reply_status = 500,
                   reply_body = ErrorBody ''Unexpected token in JSON'' ''api_error''\<rparr>\<rparr>"
  by (simp add: chatCompletions_def unaryCompletion_def catchReply_def example_route_simps)

text \<open>
  Claim C7, amended. In a non-streaming request, when the gate reaches a function tool
  call whose arguments \<^verbatim>\<open>JSON.parse\<close> rejects (the tool calls before it passed), the
  evaluator is not asked about that call; the request fails with status 500 and the body
  \<^verbatim>\<open>{error: {message, type: "api_error"}}\<close>, the message being the parser's. The assistant
  message is not stored and the upstream response is not returned.
\<close>

theorem unparseable_arguments_fail_the_request:
  assumes "chatId \<in> set chats"
    and "processToolMessages rt g chatId (req_messages request) store = (None, store1)"
    and "storeUserMessage chatId (req_messages request) store1 = Inr store2"
    and "\<not> req_stream request"
    and "chatCompletion llm request = Inr response"
    and "resp_choices response = assistantMessage # others"
    and "msg_tool_calls assistantMessage = Some (pre @ FunctionToolCall cid name arguments # post)"
    and "\<forall>c\<in>set pre. toolCallAllowed rt g c"
    and "JSON_parse rt arguments = Inl m"
  shows "chatCompletions rt g llm chats store chatId request =
     \<lparr>interactions = store2, raw_written = [],
      sent = Some \<lparr>reply_status = 500, reply_body = ErrorBody m ''api_error''\<rparr>\<rparr>"
proof -
  have "evaluateToolCalls rt g (pre @ FunctionToolCall cid name arguments # post)
      = Inl (JsError None m)"
    using assms(8,9) by (simp add: evaluateToolCalls_skip_allowed)
  then show ?thesis
    using assms(1-7) by (simp add: chatCompletions_unary unaryCompletion_def catchReply_def)
qed

theorem unparseable_arguments_fail_the_request_witness:
  "''chat-1'' \<in> set [''chat-1'']
   \<and> processToolMessages example_runtime example_guardrails ''chat-1'' [user_message ''hi''] []
       = (None, [])
   \<and> storeUserMessage ''chat-1'' [user_message ''hi''] []
       = Inr [\<lparr>int_chatId = ''chat-1'', int_content = user_message ''hi'',
                tainted = False, taintReason = None\<rparr>]
   \<and> toolCallAllowed example_runtime example_guardrails
        (FunctionToolCall ''call-1'' ''readFile'' ''{}'')
   \<and> JSON_parse example_runtime ''{oops'' = Inl ''Unexpected token in JSON''
   \<and> chatCompletions example_runtime example_guardrails
        (example_provider
           \<lparr>resp_id = ''r1'',
            resp_choices = [assistant_message
              [FunctionToolCall ''call-1'' ''readFile'' ''{}'',
               FunctionToolCall ''call-2'' ''sendEmail'' ''{oops'']]\<rparr> [])
        [''chat-1''] [] ''chat-1''
        \<lparr>req_model = ''m'', req_messages = [user_message ''hi''], req_stream = False\<rparr>
       = \<lparr>interactions = [\<lparr>int_chatId = ''chat-1'', int_content = user_message ''hi'',
                             tainted = False, taintReason = None\<rparr>],
          raw_written = [],
          sent = Some \<lparr>reply_status = 500,
                       reply_body = ErrorBody ''Unexpected token in JSON'' ''api_error''\<rparr>\<rparr>"
proof -
  let ?c1 = "FunctionToolCall ''call-1'' ''readFile'' ''{}''"
  let ?c2 = "FunctionToolCall ''call-2'' ''sendEmail'' ''{oops''"
  let ?r1 = "\<lparr>resp_id = ''r1'', resp_choices = [assistant_message [?c1, ?c2]]\<rparr>"
  let ?request = "\<lparr>req_model = ''m'', req_messages = [user_message ''hi''], req_stream = False\<rparr>"
  let ?stored = "[\<lparr>int_chatId = ''chat-1'', int_content = user_message ''hi'',
                   tainted = False, taintReason = None\<rparr>]"
  have chat: "''chat-1'' \<in> set [''chat-1'']" by simp
  have ingress: "processToolMessages example_runtime example_guardrails ''chat-1''
      (req_messages ?request) [] = (None, [])"
    by (simp add: user_message_def)
  have user: "storeUserMessage ''chat-1'' (req_messages ?request) [] = Inr ?stored"
    by (simp add: example_route_simps)
  have unary: "\<not> req_stream ?request" by simp
  have up: "chatCompletion (example_provider ?r1 []) ?request = Inr ?r1"
    by (simp add: example_provider_def)
  have ch: "resp_choices ?r1 = assistant_message [?c1, ?c2] # []"
    by simp
  have calls: "msg_tool_calls (assistant_message [?c1, ?c2]) = Some ([?c1] @ ?c2 # [])"
    by (simp add: assistant_message_def)
  have ok1: "toolCallAllowed example_runtime example_guardrails ?c1"
    by (simp add: example_route_simps)
  then have pre: "\<forall>c\<in>set [?c1]. toolCallAllowed example_runtime example_guardrails c"
    by simp
  have bad: "JSON_parse example_runtime ''{oops'' = Inl ''Unexpected token in JSON''"
    by (simp add: example_route_simps)
  have failed: "chatCompletions example_runtime example_guardrails (example_provider ?r1 [])
      [''chat-1''] [] ''chat-1'' ?request =
      \<lparr>interactions = ?stored, raw_written = [],
       sent = Some \<lparr>reply_status = 500,
                    reply_body = ErrorBody ''Unexpected token in JSON'' ''api_error''\<rparr>\<rparr>"
    by (rule unparseable_arguments_fail_the_request
        [OF chat ingress user unary up ch calls pre bad])
  from ingress have ingress': "processToolMessages example_runtime example_guardrails ''chat-1''
      [user_message ''hi''] [] = (None, [])"
    by simp
  from user have user': "storeUserMessage ''chat-1'' [user_message ''hi''] [] = Inr ?stored"
    by simp
  show ?thesis
    by (intro conjI chat ingress' user' ok1 bad failed)
qed

text \<open>
  Claim C4: the streaming branch against the claim. Every chunk of the upstream stream is
  written as one \<^verbatim>\<open>data: <json>\<close> event followed by a blank line, and \<^verbatim>\<open>data: [DONE]\<close> ends
  the stream: that part of the claim holds. But the branch returns right after, and the
  tool-invocation evaluator is never asked: with an evaluator that denies every tool
  call, and whatever the chunks carry, the client receives the chunks and the terminator
  and no error event, and the reply has no status of its own. The non-streaming branch of
  the same handler blocks such a call with a 403.
\<close>

theorem streaming_relays_without_gate:
  "chatCompletions rt
     \<lparr>trustedData_evaluate = trusted,
      toolInvocation_evaluate =
        (\<lambda>toolName toolCallId toolInput. Inr \<lparr>isAllowed = False, denyReason = reason\<rparr>)\<rparr>
     \<lparr>chatCompletion = unary, chatCompletionStream = (\<lambda>request. (chunks, None))\<rparr>
     [chatId] store chatId
     \<lparr>req_model = model, req_messages = [user_message txt], req_stream = True\<rparr>
   = \<lparr>interactions =
        store @ [\<lparr>int_chatId = chatId, int_content = user_message txt,
                   tainted = False, taintReason = None\<rparr>],
      raw_written =
        map (\<lambda>chunk. ''data: '' @ JSON_stringify rt 0 chunk @ newline @ newline) chunks
        @ [''data: [DONE]'' @ newline @ newline],
      sent = None\<rparr>"
  by (simp add: chatCompletions_def streamCompletion_def storeUserMessage_def
      InteractionModel_create_def user_message_def)

section \<open>The dual-LLM sub-agent: properties\<close>

lemma answerProperty_truthy: "answerProperty parsed = Some v \<Longrightarrow> truthy parsed"
  by (cases parsed) (simp_all add: answerProperty_def truthy_def)

lemma selectAnswer_in_range: "0 < n \<Longrightarrow> 0 \<le> selectAnswer parsed n \<and> selectAnswer parsed n < int n"
  by (auto simp: selectAnswer_def Let_def split: option.splits json.splits jsnumber.splits)

lemma selectAnswer_floor:
  "answerProperty parsed = Some (JNumber (Num q)) \<Longrightarrow>
   selectAnswer parsed n = (if \<lfloor>q\<rfloor> < 0 \<or> int n \<le> \<lfloor>q\<rfloor> then int n - 1 else \<lfloor>q\<rfloor>)"
  by (simp add: selectAnswer_def answerProperty_truthy Let_def)

lemma selectAnswer_last:
  "\<forall>q. answerProperty parsed \<noteq> Some (JNumber (Num q)) \<Longrightarrow> selectAnswer parsed n = int n - 1"
  by (auto simp: selectAnswer_def split: option.splits json.splits jsnumber.splits)

lemmas example_subagent_simps =
  example_runtime_def example_config_def example_subagent_def example_client_def
  example_world_def example_evaluate_def example_messages_def

text \<open>
  Claim C9, as the specification states it, fails on a reply whose answer is a number
  but not an integer: with three options and the reply \<^verbatim>\<open>{answer: 1.5}\<close>, \<^verbatim>\<open>Math.floor\<close> makes
  it 1, which is within range, and the option picked is index 1, not the last one.
\<close>

theorem non_integral_answer_counterexample:
  "fst (answerQuestion example_runtime
          (example_client (JObject [(''answer'', JNumber (Num (3 / 2)))]))
          example_subagent ''Is it spam?'' [''yes'', ''no'', ''cannot tell''] (example_world []))
   = Inr 1"
proof -
  have "\<lfloor>3 / 2 :: rat\<rfloor> = 1"
    by (rule floor_unique) simp_all
  then show ?thesis
    by (simp add: answerQuestion_def callChatWithSchema_def selectAnswer_def truthy_def
        answerProperty_def example_client_def example_world_def)
qed

text \<open>
  Claim C9, amended. For a reply of the quarantined agent to a question with at least one
  option, the index that \<^verbatim>\<open>answerQuestion\<close> returns is within the options. When the reply's
  \<^verbatim>\<open>answer\<close> is a finite number, its floor is taken: a floor within the options is the index
  (so a non-integral answer selects the option at its integer part), and a floor outside
  them selects the last option. When the reply has no \<^verbatim>\<open>answer\<close>, or one that is not a finite
  number, the last option is selected. The call counts as one LLM call whatever the reply.
\<close>

theorem answer_index_within_options:
  assumes "options \<noteq> []"
    and "llm_chatWithSchema client (w_llm w)
           [\<lparr>dm_role = ''user'', dm_content = quarantinedPrompt rt sa question options\<rparr>]
         = (Inr parsed, l)"
  shows
    "answerQuestion rt client sa question options w =
       (Inr (selectAnswer parsed (length options)),
        w\<lparr>w_llm := l, w_llm_calls := Suc (w_llm_calls w)\<rparr>)
     \<and> 0 \<le> selectAnswer parsed (length options)
     \<and> selectAnswer parsed (length options) < int (length options)
     \<and> (\<forall>q. answerProperty parsed = Some (JNumber (Num q)) \<and>
             0 \<le> \<lfloor>q\<rfloor> \<and> \<lfloor>q\<rfloor> < int (length options) \<longrightarrow>
             selectAnswer parsed (length options) = \<lfloor>q\<rfloor>)
     \<and> (\<forall>q. answerProperty parsed = Some (JNumber (Num q)) \<and>
             (\<lfloor>q\<rfloor> < 0 \<or> int (length options) \<le> \<lfloor>q\<rfloor>) \<longrightarrow>
             selectAnswer parsed (length options) = int (length options) - 1)
     \<and> ((\<forall>q. answerProperty parsed \<noteq> Some (JNumber (Num q))) \<longrightarrow>
           selectAnswer parsed (length options) = int (length options) - 1)"
proof (intro conjI allI impI)
  show "answerQuestion rt client sa question options w =
       (Inr (selectAnswer parsed (length options)),
        w\<lparr>w_llm := l, w_llm_calls := Suc (w_llm_calls w)\<rparr>)"
    using assms(2) by (simp add: answerQuestion_def callChatWithSchema_def)
next
  from assms(1) have "0 < length options" by simp
  then show "0 \<le> selectAnswer parsed (length options)"
    and "selectAnswer parsed (length options) < int (length options)"
    using selectAnswer_in_range [of "length options" parsed] by simp_all
next
  fix q
  assume "answerProperty parsed = Some (JNumber (Num q)) \<and>
             0 \<le> \<lfloor>q\<rfloor> \<and> \<lfloor>q\<rfloor> < int (length options)"
  then show "selectAnswer parsed (length options) = \<lfloor>q\<rfloor>"
    by (simp add: selectAnswer_floor)
next
  fix q
  assume "answerProperty parsed = Some (JNumber (Num q)) \<and>
             (\<lfloor>q\<rfloor> < 0 \<or> int (length options) \<le> \<lfloor>q\<rfloor>)"
  then show "selectAnswer parsed (length options) = int (length options) - 1"
    by (auto simp: selectAnswer_floor)
next
  assume "\<forall>q. answerProperty parsed \<noteq> Some (JNumber (Num q))"
  then show "selectAnswer parsed (length options) = int (length options) - 1"
    by (rule selectAnswer_last)
qed

text \<open>
  The scenario of the specification: three options and the reply \<^verbatim>\<open>{answer: 9}\<close> select
  index 2.
\<close>

theorem answer_index_within_options_witness:
  "[''yes'', ''no'', ''cannot tell''] \<noteq> []
   \<and> llm_chatWithSchema (example_client (JObject [(''answer'', JNumber (Num 9))]))
        (w_llm (example_world []))
        [\<lparr>dm_role = ''user'',
          dm_content = quarantinedPrompt example_runtime example_subagent ''Is it spam?''
                         [''yes'', ''no'', ''cannot tell'']\<rparr>]
       = (Inr (JObject [(''answer'', JNumber (Num 9))]), 1)
   \<and> answerProperty (JObject [(''answer'', JNumber (Num 9))]) = Some (JNumber (Num 9))
   \<and> int (length [''yes'', ''no'', ''cannot tell'']) \<le> \<lfloor>9 :: rat\<rfloor>
   \<and> answerQuestion example_runtime (example_client (JObject [(''answer'', JNumber (Num 9))]))
        example_subagent ''Is it spam?'' [''yes'', ''no'', ''cannot tell''] (example_world [])
       = (Inr 2, \<lparr>w_results = [], w_llm = 1, w_llm_calls = 1\<rparr>)"
proof -
  let ?reply = "JObject [(''answer'', JNumber (Num 9))]"
  let ?options = "[''yes'', ''no'', ''cannot tell'']"
  have nonempty: "?options \<noteq> []" by simp
  have call: "llm_chatWithSchema (example_client ?reply) (w_llm (example_world []))
      [\<lparr>dm_role = ''user'',
        dm_content = quarantinedPrompt example_runtime example_subagent ''Is it spam?'' ?options\<rparr>]
      = (Inr ?reply, 1)"
    by (simp add: example_client_def example_world_def)
  have ans: "answerProperty ?reply = Some (JNumber (Num 9))"
    by (simp add: answerProperty_def)
  have outside: "int (length ?options) \<le> \<lfloor>9 :: rat\<rfloor>" by simp
  note inst = answer_index_within_options [OF nonempty call]
  from inst have run: "answerQuestion example_runtime (example_client ?reply) example_subagent
      ''Is it spam?'' ?options (example_world []) =
      (Inr (selectAnswer ?reply (length ?options)),
       (example_world [])\<lparr>w_llm := 1, w_llm_calls := Suc (w_llm_calls (example_world []))\<rparr>)"
    by (rule conjunct1)
  from inst have "\<forall>q. answerProperty ?reply = Some (JNumber (Num q)) \<and>
             (\<lfloor>q\<rfloor> < 0 \<or> int (length ?options) \<le> \<lfloor>q\<rfloor>) \<longrightarrow>
             selectAnswer ?reply (length ?options) = int (length ?options) - 1"
    by blast
  with ans outside have "selectAnswer ?reply (length ?options) = int (length ?options) - 1"
    by blast
  then have "selectAnswer ?reply (length ?options) = 2" by simp
  with run have "answerQuestion example_runtime (example_client ?reply) example_subagent
      ''Is it spam?'' ?options (example_world []) =
      (Inr 2, \<lparr>w_results = [], w_llm = 1, w_llm_calls = 1\<rparr>)"
    by (simp add: example_world_def)
  with nonempty call ans outside show ?thesis by blast
qed

section \<open>The trusted-data filter: properties\<close>

lemma evaluateContentBlock_frame:
  assumes "evaluateContentBlock rt evaluate client config messages agentId b w
           = (Inr (b', u), w')"
  shows "blockFrame b b'"
proof (cases b)
  case (ToolResultBlock toolUseId content)
  with assms show ?thesis
    by (auto simp: evaluateContentBlock_def blockFrame_def Let_def
        split: option.splits if_splits sum.splits prod.splits)
qed (use assms in \<open>auto simp: evaluateContentBlock_def blockFrame_def\<close>)

lemma evaluateContentBlocks_frame:
  "evaluateContentBlocks rt evaluate client config messages agentId bs w = (Inr (bs', u), w')
   \<Longrightarrow> list_all2 blockFrame bs bs'"
proof (induction bs arbitrary: w bs' u w')
  case Nil
  then show ?case by simp
next
  case (Cons b bs)
  from Cons.prems obtain b1 u1 w1 rest u2 where
    head: "evaluateContentBlock rt evaluate client config messages agentId b w
           = (Inr (b1, u1), w1)"
    and tail: "evaluateContentBlocks rt evaluate client config messages agentId bs w1
           = (Inr (rest, u2), w')"
    and result: "bs' = b1 # rest"
    by (auto split: prod.splits sum.splits)
  from head have "blockFrame b b1" by (rule evaluateContentBlock_frame)
  moreover from tail have "list_all2 blockFrame bs rest" by (rule Cons.IH)
  ultimately show ?case using result by simp
qed

lemma messageFrame_refl: "messageFrame m m"
proof (cases "a_content m")
  case (StringContent s)
  then show ?thesis by (simp add: messageFrame_def)
next
  case (BlocksContent blocks)
  have "list_all2 blockFrame blocks blocks"
    by (rule list_all2_refl) (simp add: blockFrame_def split: content_block.splits)
  with BlocksContent show ?thesis by (simp add: messageFrame_def)
qed

lemma filterMessages_frame:
  "filterMessages rt evaluate client config messages agentId rest w = (Inr (filtered, u), w')
   \<Longrightarrow> list_all2 messageFrame rest filtered"
proof (induction rest arbitrary: w filtered u w')
  case Nil
  then show ?case by simp
next
  case (Cons m rest)
  let ?head = "(if a_role m = ''user''
            then (case a_content m of
                    BlocksContent blocks \<Rightarrow>
                      (if blocks = [] then (Inr (m, False), w)
                       else (case evaluateContentBlocks rt evaluate client config messages
                                    agentId blocks w of
                               (Inl e, w1) \<Rightarrow> (Inl e, w1)
                             | (Inr (updatedContentBlocks, untrusted), w1) \<Rightarrow>
                                 (Inr (m\<lparr>a_content := BlocksContent updatedContentBlocks\<rparr>,
                                       untrusted), w1)))
                  | StringContent _ \<Rightarrow> (Inr (m, False), w))
            else (Inr (m, False), w))"
  from Cons.prems obtain m1 u1 w1 filteredRest u2 where
    head: "?head = (Inr (m1, u1), w1)"
    and tail: "filterMessages rt evaluate client config messages agentId rest w1
           = (Inr (filteredRest, u2), w')"
    and result: "filtered = m1 # filteredRest"
    by (auto split: prod.splits sum.splits)
  have "messageFrame m m1"
  proof (cases "a_role m = ''user'' \<and> (\<exists>blocks. a_content m = BlocksContent blocks \<and> blocks \<noteq> [])")
    case True
    then obtain blocks where blocks: "a_content m = BlocksContent blocks" "blocks \<noteq> []"
      and user: "a_role m = ''user''"
      by blast
    with head obtain updated where
      run: "evaluateContentBlocks rt evaluate client config messages agentId blocks w
            = (Inr (updated, u1), w1)"
      and m1: "m1 = m\<lparr>a_content := BlocksContent updated\<rparr>"
      by (auto split: prod.splits sum.splits)
    from run have "list_all2 blockFrame blocks updated"
      by (rule evaluateContentBlocks_frame)
    with blocks user m1 show ?thesis by (simp add: messageFrame_def)
  next
    case False
    with head have "m1 = m"
      by (auto split: if_splits message_content.splits)
    then show ?thesis by (simp add: messageFrame_refl)
  qed
  moreover from tail have "list_all2 messageFrame rest filteredRest" by (rule Cons.IH)
  ultimately show ?case using result by simp
qed

text \<open>
  The filter returns whenever its collaborators do: the only errors it can end with are
  those of the policy evaluator and of the LLM. The sub-agent always finds the tool
  result it is created for, because the filter creates it for a block it has just read
  in a user message of the same list.
\<close>

lemma findToolResult_finds:
  "ToolResultBlock toolUseId content \<in> set blocks \<Longrightarrow> \<exists>c. findToolResult blocks toolUseId = Some c"
  by (induction blocks toolUseId rule: findToolResult.induct) auto

lemma scanToolResult_finds:
  assumes "m \<in> set ms" and "a_role m = ''user''" and "a_content m = BlocksContent blocks"
    and "ToolResultBlock toolUseId content \<in> set blocks"
  shows "\<exists>c. scanToolResult ms toolUseId = Some c"
  using assms
proof (induction ms)
  case Nil
  then show ?case by simp
next
  case (Cons x xs)
  show ?case
  proof (cases "x = m")
    case True
    with Cons.prems findToolResult_finds [of toolUseId content blocks] show ?thesis
      by auto
  next
    case False
    with Cons have "\<exists>c. scanToolResult xs toolUseId = Some c" by simp
    then show ?thesis
      by (auto split: message_content.splits option.splits)
  qed
qed

lemma callChat_returns:
  assumes "\<forall>l msgs. \<exists>r l'. llm_chat client l msgs = (Inr r, l')"
  shows "\<exists>r w'. callChat client msgs w = (Inr r, w')"
proof -
  from assms obtain r l' where "llm_chat client (w_llm w) msgs = (Inr r, l')" by blast
  then show ?thesis by (simp add: callChat_def)
qed

lemma answerQuestion_returns:
  assumes "\<forall>l msgs. \<exists>r l'. llm_chatWithSchema client l msgs = (Inr r, l')"
  shows "\<exists>k w'. answerQuestion rt client sa question options w = (Inr k, w')"
proof -
  from assms obtain r l' where
    "llm_chatWithSchema client (w_llm w)
       [\<lparr>dm_role = ''user'', dm_content = quarantinedPrompt rt sa question options\<rparr>]
     = (Inr r, l')"
    by blast
  then show ?thesis by (simp add: answerQuestion_def callChatWithSchema_def)
qed

lemma qaLoop_returns:
  assumes chat: "\<forall>l msgs. \<exists>r l'. llm_chat client l msgs = (Inr r, l')"
    and schema: "\<forall>l msgs. \<exists>r l'. llm_chatWithSchema client l msgs = (Inr r, l')"
  shows "\<exists>conv w'. qaLoop rt client sa rounds conversation w = (Inr conv, w')"
proof (induction rounds arbitrary: conversation w)
  case 0
  show ?case by simp
next
  case (Suc rounds)
  from callChat_returns [OF chat] obtain response w1 where
    c: "callChat client conversation w = (Inr response, w1)"
    by blast
  show ?case
  proof (cases "sublist ''DONE'' response")
    case True
    with c show ?thesis by simp
  next
    case False
    show ?thesis
    proof (cases "str_match rt QuestionRegex response")
      case None
      with c False show ?thesis by simp
    next
      case (Some questionMatch)
      show ?thesis
      proof (cases "str_match rt OptionsRegex response")
        case None
        with c False Some show ?thesis by simp
      next
        case (Some optionsMatch)
        from answerQuestion_returns [OF schema] obtain k w2 where
          a: "answerQuestion rt client sa (str_trim rt questionMatch)
                (parseOptions rt (str_trim rt optionsMatch)) w1 = (Inr k, w2)"
          by blast
        from Suc.IH obtain conv w' where
          "qaLoop rt client sa rounds
             (conversation @ [\<lparr>dm_role = ''assistant'', dm_content = response\<rparr>] @
              [\<lparr>dm_role = ''user'',
                dm_content = ''Answer: '' @ show_int k @ '' (''
                  @ selectedOptionText (parseOptions rt (str_trim rt optionsMatch)) k @ '')''\<rparr>])
             w2 = (Inr conv, w')"
          by blast
        with c False \<open>str_match rt QuestionRegex response = Some questionMatch\<close> Some a
        show ?thesis by (simp add: Let_def)
      qed
    qed
  qed
qed

lemma processWithMainAgent_returns:
  assumes chat: "\<forall>l msgs. \<exists>r l'. llm_chat client l msgs = (Inr r, l')"
    and schema: "\<forall>l msgs. \<exists>r l'. llm_chatWithSchema client l msgs = (Inr r, l')"
  shows "\<exists>summary w'. processWithMainAgent rt client sa w = (Inr summary, w')"
proof -
  from qaLoop_returns [OF chat schema] obtain conv w1 where
    q: "qaLoop rt client sa (nat (maxRounds (sa_config sa)))
          [\<lparr>dm_role = ''user'',
            dm_content = str_replace rt ''{{originalUserRequest}}'' (sa_originalUserRequest sa)
                           (mainAgentPrompt (sa_config sa))\<rparr>] w = (Inr conv, w1)"
    by blast
  from callChat_returns [OF chat] obtain summary w2 where
    "generateSummary rt client sa conv w1 = (Inr summary, w2)"
    unfolding generateSummary_def Let_def by blast
  with q show ?thesis by (simp add: processWithMainAgent_def Let_def)
qed

lemma sanitizeWithDualLlm_returns:
  assumes chat: "\<forall>l msgs. \<exists>r l'. llm_chat client l msgs = (Inr r, l')"
    and schema: "\<forall>l msgs. \<exists>r l'. llm_chatWithSchema client l msgs = (Inr r, l')"
    and present: "\<exists>c. scanToolResult messages toolUseId = Some c"
  shows "\<exists>safe w'. sanitizeWithDualLlm rt client config messages agentId toolUseId w
           = (Inr safe, w')"
proof (cases "findByToolCallId (w_results w) toolUseId")
  case (Some existing)
  then show ?thesis by (simp add: sanitizeWithDualLlm_def)
next
  case None
  from present obtain sa where
    "createSubagent rt config messages toolUseId agentId = Inr sa"
    by (auto simp: createSubagent_def extractToolResultFromAnthropic_def)
  with None processWithMainAgent_returns [OF chat schema, of rt sa w] show ?thesis
    by (simp add: sanitizeWithDualLlm_def)
qed

lemma evaluateContentBlock_returns:
  assumes evaluator: "\<forall>a t r. \<exists>v. evaluate a t r = Inr v"
    and chat: "\<forall>l msgs. \<exists>r l'. llm_chat client l msgs = (Inr r, l')"
    and schema: "\<forall>l msgs. \<exists>r l'. llm_chatWithSchema client l msgs = (Inr r, l')"
    and inside: "m \<in> set messages" "a_role m = ''user''" "a_content m = BlocksContent blocks"
      "b \<in> set blocks"
  shows "\<exists>b' u w'. evaluateContentBlock rt evaluate client config messages agentId b w
           = (Inr (b', u), w')"
proof (cases b)
  case (ToolResultBlock toolUseId content)
  with inside have "\<exists>c. scanToolResult messages toolUseId = Some c"
    using scanToolResult_finds [of m messages blocks toolUseId content] by simp
  from sanitizeWithDualLlm_returns [OF chat schema this] obtain safe w1 where
    s: "sanitizeWithDualLlm rt client config messages agentId toolUseId w = (Inr safe, w1)"
    by blast
  show ?thesis
  proof (cases "extractToolNameFromMessages messages toolUseId")
    case None
    with ToolResultBlock show ?thesis by (auto simp: evaluateContentBlock_def)
  next
    case (Some toolName)
    from evaluator obtain v where
      "evaluate agentId toolName (decodeToolResult rt content) = Inr v"
      by blast
    with ToolResultBlock Some s show ?thesis
      by (auto simp: evaluateContentBlock_def Let_def)
  qed
qed (auto simp: evaluateContentBlock_def)

lemma evaluateContentBlocks_returns:
  assumes evaluator: "\<forall>a t r. \<exists>v. evaluate a t r = Inr v"
    and chat: "\<forall>l msgs. \<exists>r l'. llm_chat client l msgs = (Inr r, l')"
    and schema: "\<forall>l msgs. \<exists>r l'. llm_chatWithSchema client l msgs = (Inr r, l')"
    and inside: "m \<in> set messages" "a_role m = ''user''" "a_content m = BlocksContent blocks"
  shows "set bs \<subseteq> set blocks \<Longrightarrow>
    \<exists>bs' u w'. evaluateContentBlocks rt evaluate client config messages agentId bs w
           = (Inr (bs', u), w')"
proof (induction bs arbitrary: w)
  case Nil
  show ?case by auto
next
  case (Cons b bs)
  then have "b \<in> set blocks" by simp
  from evaluateContentBlock_returns [OF evaluator chat schema inside this]
  obtain b' u w1 where
    h: "evaluateContentBlock rt evaluate client config messages agentId b w = (Inr (b', u), w1)"
    by blast
  from Cons obtain bs' u' w2 where
    "evaluateContentBlocks rt evaluate client config messages agentId bs w1
     = (Inr (bs', u'), w2)"
    by fastforce
  with h show ?case by simp
qed

lemma filterMessages_returns:
  assumes evaluator: "\<forall>a t r. \<exists>v. evaluate a t r = Inr v"
    and chat: "\<forall>l msgs. \<exists>r l'. llm_chat client l msgs = (Inr r, l')"
    and schema: "\<forall>l msgs. \<exists>r l'. llm_chatWithSchema client l msgs = (Inr r, l')"
  shows "set rest \<subseteq> set messages \<Longrightarrow>
    \<exists>filtered u w'. filterMessages rt evaluate client config messages agentId rest w
           = (Inr (filtered, u), w')"
proof (induction rest arbitrary: w)
  case Nil
  show ?case by auto
next
  case (Cons m rest)
  then have m: "m \<in> set messages" by simp
  have "\<exists>m1 u1 w1.
      (if a_role m = ''user''
       then (case a_content m of
               BlocksContent blocks \<Rightarrow>
                 (if blocks = [] then (Inr (m, False), w)
                  else (case evaluateContentBlocks rt evaluate client config messages
                               agentId blocks w of
                          (Inl e, w1) \<Rightarrow> (Inl e, w1)
                        | (Inr (updatedContentBlocks, untrusted), w1) \<Rightarrow>
                            (Inr (m\<lparr>a_content := BlocksContent updatedContentBlocks\<rparr>,
                                  untrusted), w1)))
             | StringContent _ \<Rightarrow> (Inr (m, False), w))
       else (Inr (m, False), w)) = (Inr (m1, u1), w1)"
  proof (cases "a_role m = ''user''")
    case False
    then show ?thesis by auto
  next
    case True
    show ?thesis
    proof (cases "a_content m")
      case (StringContent s)
      with True show ?thesis by auto
    next
      case (BlocksContent blocks)
      from evaluateContentBlocks_returns
        [OF evaluator chat schema m True BlocksContent, of blocks rt config agentId w]
      obtain bs' u w1 where
        "evaluateContentBlocks rt evaluate client config messages agentId blocks w
         = (Inr (bs', u), w1)"
        by auto
      with True BlocksContent show ?thesis by auto
    qed
  qed
  then obtain m1 u1 w1 where
    h: "(if a_role m = ''user''
       then (case a_content m of
               BlocksContent blocks \<Rightarrow>
                 (if blocks = [] then (Inr (m, False), w)
                  else (case evaluateContentBlocks rt evaluate client config messages
                               agentId blocks w of
                          (Inl e, w1) \<Rightarrow> (Inl e, w1)
                        | (Inr (updatedContentBlocks, untrusted), w1) \<Rightarrow>
                            (Inr (m\<lparr>a_content := BlocksContent updatedContentBlocks\<rparr>,
                                  untrusted), w1)))
             | StringContent _ \<Rightarrow> (Inr (m, False), w))
       else (Inr (m, False), w)) = (Inr (m1, u1), w1)"
    by blast
  from Cons obtain filtered u w2 where
    "filterMessages rt evaluate client config messages agentId rest w1
     = (Inr (filtered, u), w2)"
    by fastforce
  with h show ?case by simp
qed

lemma evaluateIfContextIsTrusted_returns:
  assumes "\<forall>a t r. \<exists>v. evaluate a t r = Inr v"
    and "\<forall>l msgs. \<exists>r l'. llm_chat client l msgs = (Inr r, l')"
    and "\<forall>l msgs. \<exists>r l'. llm_chatWithSchema client l msgs = (Inr r, l')"
  shows "\<exists>filteredMessages contextIsTrusted w'.
    evaluateIfContextIsTrusted rt evaluate client config messages agentId w
    = (Inr (filteredMessages, contextIsTrusted), w')"
proof -
  from filterMessages_returns [OF assms, of messages messages rt config agentId w]
  obtain filtered u w' where
    "filterMessages rt evaluate client config messages agentId messages w
     = (Inr (filtered, u), w')"
    by auto
  then show ?thesis by (simp add: evaluateIfContextIsTrusted_def)
qed

lemmas example_filter_simps =
  evaluateIfContextIsTrusted_def evaluateContentBlock_def sanitizeWithDualLlm_def
  createSubagent_def extractToolResultFromAnthropic_def extractUserRequestFromAnthropic_def
  extractToolNameFromMessages_def decodeToolResult_def processWithMainAgent_def
  generateSummary_def callChat_def findByToolCallId_def DualLlmResultModel_create_def
  example_subagent_simps example_parse_def newline_def sublist_code eval_nat_numeral

text \<open>
  The example conversation through the filter, with an empty cache: the tool result of
  \<^verbatim>\<open>tu1\<close> is untrusted, the sub-agent runs (the privileged LLM says \<^verbatim>\<open>DONE\<close> at once, then
  summarises), and the block's content becomes the summary, \<^verbatim>\<open>SAFE\<close>.
\<close>

lemma example_filter_run:
  "evaluateIfContextIsTrusted example_runtime example_evaluate (example_client JNull)
     example_config example_messages ''agent-1'' (example_world [])
   = (Inr ([\<lparr>a_role = ''user'', a_content = StringContent ''read my mail''\<rparr>,
            \<lparr>a_role = ''assistant'',
             a_content = BlocksContent [ToolUseBlock ''tu1'' ''getEmails'' (JObject [])]\<rparr>,
            \<lparr>a_role = ''user'',
             a_content = BlocksContent
               [ToolResultBlock ''tu1'' (JString ''SAFE''), TextBlock ''go on'']\<rparr>],
           False),
      \<lparr>w_results =
         [\<lparr>res_agentId = ''agent-1'', res_toolCallId = ''tu1'',
           res_conversations =
             [\<lparr>dm_role = ''user'', dm_content = ''Ask about the data.''\<rparr>,
              \<lparr>dm_role = ''assistant'', dm_content = ''DONE''\<rparr>],
           res_result = ''SAFE''\<rparr>],
       w_llm = 2, w_llm_calls = 2\<rparr>)"
  by (simp add: example_filter_simps)

text \<open>
  Claim C10. \<^verbatim>\<open>evaluateIfContextIsTrusted\<close> is a rewrite that keeps the frame. Whenever it
  returns, the filtered list has the length and the order of the input; a message that is
  not a user message with a non-empty array of blocks is returned unchanged; of such a
  user message only the content changes, block by block: a block that is not a
  \<^verbatim>\<open>tool_result\<close> is returned unchanged, and a \<^verbatim>\<open>tool_result\<close> block is returned
  unchanged or as a \<^verbatim>\<open>tool_result\<close> block for the same tool-use id with a string for its
  content. And it does return, for every list of messages, as long as the policy evaluator
  and the LLM do not throw.
\<close>

theorem evaluateIfContextIsTrusted_frame:
  "(\<forall>filteredMessages contextIsTrusted w'.
      evaluateIfContextIsTrusted rt evaluate client config messages agentId w
        = (Inr (filteredMessages, contextIsTrusted), w') \<longrightarrow>
      length filteredMessages = length messages \<and>
      list_all2 messageFrame messages filteredMessages)
   \<and> ((\<forall>a t r. \<exists>v. evaluate a t r = Inr v) \<and>
       (\<forall>l msgs. \<exists>r l'. llm_chat client l msgs = (Inr r, l')) \<and>
       (\<forall>l msgs. \<exists>r l'. llm_chatWithSchema client l msgs = (Inr r, l')) \<longrightarrow>
       (\<exists>filteredMessages contextIsTrusted w'.
          evaluateIfContextIsTrusted rt evaluate client config messages agentId w
            = (Inr (filteredMessages, contextIsTrusted), w')))"
proof (intro conjI allI impI)
  fix filteredMessages contextIsTrusted w'
  assume "evaluateIfContextIsTrusted rt evaluate client config messages agentId w
        = (Inr (filteredMessages, contextIsTrusted), w')"
  then obtain u where
    "filterMessages rt evaluate client config messages agentId messages w
     = (Inr (filteredMessages, u), w')"
    by (auto simp: evaluateIfContextIsTrusted_def split: prod.splits sum.splits)
  then show frame: "list_all2 messageFrame messages filteredMessages"
    by (rule filterMessages_frame)
  then show "length filteredMessages = length messages"
    by (simp add: list_all2_lengthD)
next
  assume "(\<forall>a t r. \<exists>v. evaluate a t r = Inr v) \<and>
       (\<forall>l msgs. \<exists>r l'. llm_chat client l msgs = (Inr r, l')) \<and>
       (\<forall>l msgs. \<exists>r l'. llm_chatWithSchema client l msgs = (Inr r, l'))"
  then show "\<exists>filteredMessages contextIsTrusted w'.
          evaluateIfContextIsTrusted rt evaluate client config messages agentId w
            = (Inr (filteredMessages, contextIsTrusted), w')"
    using evaluateIfContextIsTrusted_returns [of evaluate client rt config messages agentId w]
    by blast
qed

theorem evaluateIfContextIsTrusted_frame_witness:
  "evaluateIfContextIsTrusted example_runtime example_evaluate (example_client JNull)
     example_config example_messages ''agent-1'' (example_world [])
   = (Inr ([\<lparr>a_role = ''user'', a_content = StringContent ''read my mail''\<rparr>,
            \<lparr>a_role = ''assistant'',
             a_content = BlocksContent [ToolUseBlock ''tu1'' ''getEmails'' (JObject [])]\<rparr>,
            \<lparr>a_role = ''user'',
             a_content = BlocksContent
               [ToolResultBlock ''tu1'' (JString ''SAFE''), TextBlock ''go on'']\<rparr>],
           False),
      \<lparr>w_results =
         [\<lparr>res_agentId = ''agent-1'', res_toolCallId = ''tu1'',
           res_conversations =
             [\<lparr>dm_role = ''user'', dm_content = ''Ask about the data.''\<rparr>,
              \<lparr>dm_role = ''assistant'', dm_content = ''DONE''\<rparr>],
           res_result = ''SAFE''\<rparr>],
       w_llm = 2, w_llm_calls = 2\<rparr>)
   \<and> length [\<lparr>a_role = ''user'', a_content = StringContent ''read my mail''\<rparr>,
            \<lparr>a_role = ''assistant'',
             a_content = BlocksContent [ToolUseBlock ''tu1'' ''getEmails'' (JObject [])]\<rparr>,
            \<lparr>a_role = ''user'',
             a_content = BlocksContent
               [ToolResultBlock ''tu1'' (JString ''SAFE''), TextBlock ''go on'']\<rparr>]
       = length example_messages
   \<and> list_all2 messageFrame example_messages
        [\<lparr>a_role = ''user'', a_content = StringContent ''read my mail''\<rparr>,
         \<lparr>a_role = ''assistant'',
          a_content = BlocksContent [ToolUseBlock ''tu1'' ''getEmails'' (JObject [])]\<rparr>,
         \<lparr>a_role = ''user'',
          a_content = BlocksContent
            [ToolResultBlock ''tu1'' (JString ''SAFE''), TextBlock ''go on'']\<rparr>]
   \<and> (\<forall>a t r. \<exists>v. example_evaluate a t r = Inr v)
   \<and> (\<forall>l msgs. \<exists>r l'. llm_chat (example_client JNull) l msgs = (Inr r, l'))
   \<and> (\<forall>l msgs. \<exists>r l'. llm_chatWithSchema (example_client JNull) l msgs = (Inr r, l'))
   \<and> (\<exists>filteredMessages contextIsTrusted w'.
         evaluateIfContextIsTrusted example_runtime example_evaluate (example_client JNull)
           example_config example_messages ''agent-1'' (example_world [])
         = (Inr (filteredMessages, contextIsTrusted), w'))"
proof -
  let ?filtered = "[\<lparr>a_role = ''user'', a_content = StringContent ''read my mail''\<rparr>,
            \<lparr>a_role = ''assistant'',
             a_content = BlocksContent [ToolUseBlock ''tu1'' ''getEmails'' (JObject [])]\<rparr>,
            \<lparr>a_role = ''user'',
             a_content = BlocksContent
               [ToolResultBlock ''tu1'' (JString ''SAFE''), TextBlock ''go on'']\<rparr>]"
  note inst = evaluateIfContextIsTrusted_frame
    [of example_runtime example_evaluate "example_client JNull" example_config
        example_messages "''agent-1''" "example_world []"]
  from inst [THEN conjunct1, rule_format, OF example_filter_run]
  have frame: "length ?filtered = length example_messages \<and>
      list_all2 messageFrame example_messages ?filtered" .
  have ev: "\<forall>a t r. \<exists>v. example_evaluate a t r = Inr v"
    by (simp add: example_evaluate_def)
  have chat: "\<forall>l msgs. \<exists>r l'. llm_chat (example_client JNull) l msgs = (Inr r, l')"
    by (simp add: example_client_def)
  have schema: "\<forall>l msgs. \<exists>r l'. llm_chatWithSchema (example_client JNull) l msgs = (Inr r, l')"
    by (simp add: example_client_def)
  from ev chat schema have "(\<forall>a t r. \<exists>v. example_evaluate a t r = Inr v) \<and>
       (\<forall>l msgs. \<exists>r l'. llm_chat (example_client JNull) l msgs = (Inr r, l')) \<and>
       (\<forall>l msgs. \<exists>r l'. llm_chatWithSchema (example_client JNull) l msgs = (Inr r, l'))"
    by blast
  then have returns: "\<exists>filteredMessages contextIsTrusted w'.
         evaluateIfContextIsTrusted example_runtime example_evaluate (example_client JNull)
           example_config example_messages ''agent-1'' (example_world [])
         = (Inr (filteredMessages, contextIsTrusted), w')"
    by (rule inst [THEN conjunct2, THEN mp])
  show ?thesis
    by (intro conjI example_filter_run frame [THEN conjunct1] frame [THEN conjunct2]
        ev chat schema returns)
qed

section \<open>The sanitisation cache: properties\<close>

text \<open>No LLM call touches the \<^verbatim>\<open>DualLlmResult\<close> table; a sub-agent run writes to it once,
  at its end, and only when it succeeds.\<close>

lemma callChat_results: "callChat client msgs w = (r, w') \<Longrightarrow> w_results w' = w_results w"
  by (auto simp: callChat_def split: prod.splits)

lemma callChatWithSchema_results:
  "callChatWithSchema client msgs w = (r, w') \<Longrightarrow> w_results w' = w_results w"
  by (auto simp: callChatWithSchema_def split: prod.splits)

lemma answerQuestion_results:
  "answerQuestion rt client sa question options w = (r, w') \<Longrightarrow> w_results w' = w_results w"
  by (auto simp: answerQuestion_def split: prod.splits sum.splits
      dest: callChatWithSchema_results)

lemma generateSummary_results:
  "generateSummary rt client sa conversation w = (r, w') \<Longrightarrow> w_results w' = w_results w"
  by (auto simp: generateSummary_def Let_def dest: callChat_results)

lemma qaLoop_results:
  "qaLoop rt client sa rounds conversation w = (r, w') \<Longrightarrow> w_results w' = w_results w"
proof (induction rounds arbitrary: conversation w)
  case 0
  then show ?case by simp
next
  case (Suc rounds)
  obtain reply w1 where c: "callChat client conversation w = (reply, w1)"
    by (cases "callChat client conversation w")
  then have w1: "w_results w1 = w_results w" by (rule callChat_results)
  show ?case
  proof (cases reply)
    case (Inl e)
    with c Suc.prems w1 show ?thesis by simp
  next
    case (Inr response)
    show ?thesis
    proof (cases "sublist ''DONE'' response")
      case True
      with c Inr Suc.prems w1 show ?thesis by simp
    next
      case False
      show ?thesis
      proof (cases "str_match rt QuestionRegex response")
        case None
        with c Inr False Suc.prems w1 show ?thesis by simp
      next
        case (Some questionMatch)
        note question = Some
        show ?thesis
        proof (cases "str_match rt OptionsRegex response")
          case None
          with c Inr False question Suc.prems w1 show ?thesis by simp
        next
          case (Some optionsMatch)
          obtain answer w2 where
            a: "answerQuestion rt client sa (str_trim rt questionMatch)
                  (parseOptions rt (str_trim rt optionsMatch)) w1 = (answer, w2)"
            by (cases "answerQuestion rt client sa (str_trim rt questionMatch)
                  (parseOptions rt (str_trim rt optionsMatch)) w1")
          then have w2: "w_results w2 = w_results w1" by (rule answerQuestion_results)
          show ?thesis
          proof (cases answer)
            case (Inl e)
            with c Inr False question Some a Suc.prems w1 w2 show ?thesis
              by (simp add: Let_def)
          next
            case (Inr answerIndex)
            with c \<open>reply = Inr response\<close> False question Some a Suc.prems
            have "qaLoop rt client sa rounds
                (conversation @ [\<lparr>dm_role = ''assistant'', dm_content = response\<rparr>] @
                 [\<lparr>dm_role = ''user'',
                   dm_content = ''Answer: '' @ show_int answerIndex @ '' (''
                     @ selectedOptionText (parseOptions rt (str_trim rt optionsMatch))
                         answerIndex @ '')''\<rparr>])
                w2 = (r, w')"
              by (simp add: Let_def)
            then have "w_results w' = w_results w2" by (rule Suc.IH)
            with w1 w2 show ?thesis by simp
          qed
        qed
      qed
    qed
  qed
qed

lemma processWithMainAgent_stores:
  assumes "processWithMainAgent rt client sa w = (Inr summary, w')"
  shows "\<exists>conversation.
    w_results w' =
      DualLlmResultModel_create (w_results w)
        \<lparr>res_agentId = sa_agentId sa, res_toolCallId = sa_toolCallId sa,
         res_conversations = conversation, res_result = summary\<rparr>"
proof -
  let ?start = "[\<lparr>dm_role = ''user'',
      dm_content = str_replace rt ''{{originalUserRequest}}'' (sa_originalUserRequest sa)
                     (mainAgentPrompt (sa_config sa))\<rparr>]"
  obtain q w1 where q: "qaLoop rt client sa (nat (maxRounds (sa_config sa))) ?start w = (q, w1)"
    by (cases "qaLoop rt client sa (nat (maxRounds (sa_config sa))) ?start w")
  then have w1: "w_results w1 = w_results w" by (rule qaLoop_results)
  from assms q obtain conversation where conv: "q = Inr conversation"
    by (cases q) (simp_all add: processWithMainAgent_def Let_def)
  obtain s w2 where s: "generateSummary rt client sa conversation w1 = (s, w2)"
    by (cases "generateSummary rt client sa conversation w1")
  then have w2: "w_results w2 = w_results w1" by (rule generateSummary_results)
  from assms q conv s have "s = Inr summary"
    and "w' = w2\<lparr>w_results :=
        DualLlmResultModel_create (w_results w2)
          \<lparr>res_agentId = sa_agentId sa, res_toolCallId = sa_toolCallId sa,
           res_conversations = conversation, res_result = summary\<rparr>\<rparr>"
    by (cases s; simp add: processWithMainAgent_def Let_def)+
  with w1 w2 show ?thesis by auto
qed

lemma processWithMainAgent_failure_writes_nothing:
  assumes "processWithMainAgent rt client sa w = (Inl e, w')"
  shows "w_results w' = w_results w"
proof -
  let ?start = "[\<lparr>dm_role = ''user'',
      dm_content = str_replace rt ''{{originalUserRequest}}'' (sa_originalUserRequest sa)
                     (mainAgentPrompt (sa_config sa))\<rparr>]"
  obtain q w1 where q: "qaLoop rt client sa (nat (maxRounds (sa_config sa))) ?start w = (q, w1)"
    by (cases "qaLoop rt client sa (nat (maxRounds (sa_config sa))) ?start w")
  then have w1: "w_results w1 = w_results w" by (rule qaLoop_results)
  show ?thesis
  proof (cases q)
    case (Inl e1)
    with assms q w1 show ?thesis by (simp add: processWithMainAgent_def Let_def)
  next
    case (Inr conversation)
    obtain s w2 where s: "generateSummary rt client sa conversation w1 = (s, w2)"
      by (cases "generateSummary rt client sa conversation w1")
    then have "w_results w2 = w_results w1" by (rule generateSummary_results)
    with assms q Inr s w1 show ?thesis
      by (cases s) (simp_all add: processWithMainAgent_def Let_def)
  qed
qed

text \<open>The table: after \<^verbatim>\<open>create\<close> the row is the one found for its id, it is the only row
  for that id, and ids stay unique.\<close>

lemma find_after_create:
  "findByToolCallId (DualLlmResultModel_create rows row) (res_toolCallId row) = Some row"
  by (induction rows) (simp_all add: findByToolCallId_def DualLlmResultModel_create_def)

lemma count_after_create:
  "length (filter (\<lambda>r. res_toolCallId r = res_toolCallId row)
             (DualLlmResultModel_create rows row)) = 1"
  by (induction rows) (simp_all add: DualLlmResultModel_create_def)

lemma distinct_after_create:
  "distinct (map res_toolCallId rows) \<Longrightarrow>
   distinct (map res_toolCallId (DualLlmResultModel_create rows row))"
  by (auto simp: DualLlmResultModel_create_def distinct_map_filter)

text \<open>The sub-agent calls \<^verbatim>\<open>create\<close> only after \<^verbatim>\<open>findByToolCallId\<close> found nothing for
  the id; there the upsert is a plain insert.\<close>

lemma create_after_miss:
  "findByToolCallId rows (res_toolCallId row) = None \<Longrightarrow>
   DualLlmResultModel_create rows row = rows @ [row]"
  by (simp add: findByToolCallId_def DualLlmResultModel_create_def find_None_iff filter_id_conv)

lemma count_of_found:
  "distinct (map res_toolCallId rows) \<Longrightarrow> findByToolCallId rows toolCallId = Some row \<Longrightarrow>
   length (filter (\<lambda>r. res_toolCallId r = toolCallId) rows) = 1"
proof (induction rows)
  case Nil
  then show ?case by (simp add: findByToolCallId_def)
next
  case (Cons x xs)
  show ?case
  proof (cases "res_toolCallId x = toolCallId")
    case True
    with Cons.prems have "toolCallId \<notin> res_toolCallId ` set xs" by simp
    then have "\<forall>r\<in>set xs. res_toolCallId r \<noteq> toolCallId" by blast
    then have "filter (\<lambda>r. res_toolCallId r = toolCallId) xs = []"
      by (simp add: filter_empty_conv)
    with True show ?thesis by simp
  next
    case False
    with Cons show ?thesis by (simp add: findByToolCallId_def)
  qed
qed

text \<open>A cache hit: the stored result, and the world as it was.\<close>

lemma sanitizeWithDualLlm_cached:
  "findByToolCallId (w_results w) toolUseId = Some row \<Longrightarrow>
   sanitizeWithDualLlm rt client config messages agentId toolUseId w = (Inr (res_result row), w)"
  by (simp add: sanitizeWithDualLlm_def)

lemma sanitizeTimes_cached:
  "findByToolCallId (w_results w) toolUseId = Some row \<Longrightarrow>
   sanitizeTimes n rt client config messages agentId toolUseId w
   = (replicate n (Inr (res_result row)), w)"
  by (induction n) (simp_all add: sanitizeWithDualLlm_cached)

text \<open>After a sanitisation that returned, the table holds its result under the id.\<close>

lemma sanitizeWithDualLlm_caches:
  assumes "distinct (map res_toolCallId (w_results w))"
    and "sanitizeWithDualLlm rt client config messages agentId toolUseId w = (Inr safe, w1)"
  shows "\<exists>row. findByToolCallId (w_results w1) toolUseId = Some row \<and> res_result row = safe"
    and "length (filter (\<lambda>r. res_toolCallId r = toolUseId) (w_results w1)) = 1"
    and "distinct (map res_toolCallId (w_results w1))"
proof -
  have "(\<exists>row. findByToolCallId (w_results w1) toolUseId = Some row \<and> res_result row = safe)
      \<and> length (filter (\<lambda>r. res_toolCallId r = toolUseId) (w_results w1)) = 1
      \<and> distinct (map res_toolCallId (w_results w1))"
  proof (cases "findByToolCallId (w_results w) toolUseId")
    case (Some row)
    with assms(2) have "safe = res_result row" "w1 = w"
      by (simp_all add: sanitizeWithDualLlm_def)
    with Some assms(1) count_of_found [of "w_results w" toolUseId row] show ?thesis
      by simp
  next
    case None
    with assms(2) obtain sa where
      sa: "createSubagent rt config messages toolUseId agentId = Inr sa"
      and run: "processWithMainAgent rt client sa w = (Inr safe, w1)"
      by (auto simp: sanitizeWithDualLlm_def split: sum.splits)
    from sa have id: "sa_toolCallId sa = toolUseId"
      by (auto simp: createSubagent_def split: sum.splits)
    from processWithMainAgent_stores [OF run] id obtain conversation where
      rows: "w_results w1 =
        DualLlmResultModel_create (w_results w)
          \<lparr>res_agentId = sa_agentId sa, res_toolCallId = toolUseId,
           res_conversations = conversation, res_result = safe\<rparr>"
      by auto
    let ?row = "\<lparr>res_agentId = sa_agentId sa, res_toolCallId = toolUseId,
           res_conversations = conversation, res_result = safe\<rparr>"
    have "findByToolCallId (w_results w1) toolUseId = Some ?row"
      using find_after_create [of "w_results w" ?row] rows by simp
    moreover have "length (filter (\<lambda>r. res_toolCallId r = toolUseId) (w_results w1)) = 1"
      using count_after_create [of ?row "w_results w"] rows by simp
    moreover have "distinct (map res_toolCallId (w_results w1))"
      using distinct_after_create [OF assms(1), of ?row] rows by simp
    ultimately show ?thesis by simp
  qed
  then show "\<exists>row. findByToolCallId (w_results w1) toolUseId = Some row \<and> res_result row = safe"
    and "length (filter (\<lambda>r. res_toolCallId r = toolUseId) (w_results w1)) = 1"
    and "distinct (map res_toolCallId (w_results w1))"
    by blast+
qed

text \<open>
  Claim C5. Sanitisation is idempotent per tool-call id. When the table has a row for the
  id, sanitising returns the row's result as it is and leaves the world as it was: no LLM
  call, no row written; and the filter puts exactly that string into the \<^verbatim>\<open>tool_result\<close>
  block. When tool-call ids are unique in the table and a sanitisation returns, any number
  of sanitisations in a row return the same string as the first and leave the world as
  the first left it, with exactly one row for the id, holding that string.
\<close>

theorem sanitisation_is_idempotent:
  "(\<forall>row. findByToolCallId (w_results w) toolUseId = Some row \<longrightarrow>
      sanitizeWithDualLlm rt client config messages agentId toolUseId w
        = (Inr (res_result row), w))
   \<and> (\<forall>row toolName verdict content.
        findByToolCallId (w_results w) toolUseId = Some row \<and>
        extractToolNameFromMessages messages toolUseId = Some toolName \<and> toolName \<noteq> [] \<and>
        evaluate agentId toolName (decodeToolResult rt content) = Inr verdict \<and>
        \<not> tv_isBlocked verdict \<and> tv_shouldSanitizeWithDualLlm verdict \<longrightarrow>
        evaluateContentBlock rt evaluate client config messages agentId
          (ToolResultBlock toolUseId content) w
        = (Inr (ToolResultBlock toolUseId (JString (res_result row)), \<not> tv_isTrusted verdict), w))
   \<and> (\<forall>safe w1 n.
        distinct (map res_toolCallId (w_results w)) \<and>
        sanitizeWithDualLlm rt client config messages agentId toolUseId w = (Inr safe, w1) \<longrightarrow>
        sanitizeTimes (Suc n) rt client config messages agentId toolUseId w
          = (replicate (Suc n) (Inr safe), w1) \<and>
        length (filter (\<lambda>r. res_toolCallId r = toolUseId) (w_results w1)) = 1 \<and>
        (\<exists>row. findByToolCallId (w_results w1) toolUseId = Some row \<and> res_result row = safe))"
proof (intro conjI allI impI)
  fix row
  assume "findByToolCallId (w_results w) toolUseId = Some row"
  then show "sanitizeWithDualLlm rt client config messages agentId toolUseId w
        = (Inr (res_result row), w)"
    by (rule sanitizeWithDualLlm_cached)
next
  fix row toolName verdict content
  assume "findByToolCallId (w_results w) toolUseId = Some row \<and>
        extractToolNameFromMessages messages toolUseId = Some toolName \<and> toolName \<noteq> [] \<and>
        evaluate agentId toolName (decodeToolResult rt content) = Inr verdict \<and>
        \<not> tv_isBlocked verdict \<and> tv_shouldSanitizeWithDualLlm verdict"
  then show "evaluateContentBlock rt evaluate client config messages agentId
          (ToolResultBlock toolUseId content) w
        = (Inr (ToolResultBlock toolUseId (JString (res_result row)), \<not> tv_isTrusted verdict), w)"
    by (simp add: evaluateContentBlock_def Let_def sanitizeWithDualLlm_cached)
next
  fix safe w1 n
  assume h: "distinct (map res_toolCallId (w_results w)) \<and>
        sanitizeWithDualLlm rt client config messages agentId toolUseId w = (Inr safe, w1)"
  then have pk: "distinct (map res_toolCallId (w_results w))"
    and first: "sanitizeWithDualLlm rt client config messages agentId toolUseId w = (Inr safe, w1)"
    by simp_all
  from sanitizeWithDualLlm_caches(1) [OF pk first] obtain row where
    row: "findByToolCallId (w_results w1) toolUseId = Some row" "res_result row = safe"
    by blast
  from row have "sanitizeTimes n rt client config messages agentId toolUseId w1
      = (replicate n (Inr safe), w1)"
    using sanitizeTimes_cached [of w1 toolUseId row n rt client config messages agentId]
    by simp
  with first show "sanitizeTimes (Suc n) rt client config messages agentId toolUseId w
          = (replicate (Suc n) (Inr safe), w1)"
    by simp
  show "length (filter (\<lambda>r. res_toolCallId r = toolUseId) (w_results w1)) = 1"
    by (rule sanitizeWithDualLlm_caches(2) [OF pk first])
  from row show "\<exists>row. findByToolCallId (w_results w1) toolUseId = Some row \<and> res_result row = safe"
    by blast
qed

text \<open>
  With an empty table, three sanitisations of the example's \<^verbatim>\<open>tu1\<close> make two LLM calls in
  all, those of the first one, and leave one row. And the scenario of the specification:
  with a row \<^verbatim>\<open>{toolCallId: "tc1", result: "SAFE"}\<close> in the table, sanitising \<^verbatim>\<open>tc1\<close>
  returns \<^verbatim>\<open>SAFE\<close> and makes no LLM call.
\<close>

theorem sanitisation_is_idempotent_witness:
  "distinct (map res_toolCallId (w_results (example_world [])))
   \<and> sanitizeWithDualLlm example_runtime (example_client JNull) example_config example_messages
        ''agent-1'' ''tu1'' (example_world [])
       = (Inr ''SAFE'',
          \<lparr>w_results =
             [\<lparr>res_agentId = ''agent-1'', res_toolCallId = ''tu1'',
               res_conversations =
                 [\<lparr>dm_role = ''user'', dm_content = ''Ask about the data.''\<rparr>,
                  \<lparr>dm_role = ''assistant'', dm_content = ''DONE''\<rparr>],
               res_result = ''SAFE''\<rparr>],
           w_llm = 2, w_llm_calls = 2\<rparr>)
   \<and> sanitizeTimes 3 example_runtime (example_client JNull) example_config example_messages
        ''agent-1'' ''tu1'' (example_world [])
       = ([Inr ''SAFE'', Inr ''SAFE'', Inr ''SAFE''],
          \<lparr>w_results =
             [\<lparr>res_agentId = ''agent-1'', res_toolCallId = ''tu1'',
               res_conversations =
                 [\<lparr>dm_role = ''user'', dm_content = ''Ask about the data.''\<rparr>,
                  \<lparr>dm_role = ''assistant'', dm_content = ''DONE''\<rparr>],
               res_result = ''SAFE''\<rparr>],
           w_llm = 2, w_llm_calls = 2\<rparr>)
   \<and> findByToolCallId
        (w_results (example_world
           [\<lparr>res_agentId = ''agent-1'', res_toolCallId = ''tc1'', res_conversations = [],
             res_result = ''SAFE''\<rparr>])) ''tc1''
       = Some \<lparr>res_agentId = ''agent-1'', res_toolCallId = ''tc1'', res_conversations = [],
               res_result = ''SAFE''\<rparr>
   \<and> sanitizeWithDualLlm example_runtime (example_client JNull) example_config example_messages
        ''agent-1'' ''tc1''
        (example_world
           [\<lparr>res_agentId = ''agent-1'', res_toolCallId = ''tc1'', res_conversations = [],
             res_result = ''SAFE''\<rparr>])
       = (Inr ''SAFE'',
          \<lparr>w_results =
             [\<lparr>res_agentId = ''agent-1'', res_toolCallId = ''tc1'', res_conversations = [],
               res_result = ''SAFE''\<rparr>],
           w_llm = 0, w_llm_calls = 0\<rparr>)"
proof -
  let ?row = "\<lparr>res_agentId = ''agent-1'', res_toolCallId = ''tu1'',
               res_conversations =
                 [\<lparr>dm_role = ''user'', dm_content = ''Ask about the data.''\<rparr>,
                  \<lparr>dm_role = ''assistant'', dm_content = ''DONE''\<rparr>],
               res_result = ''SAFE''\<rparr>"
  let ?w1 = "\<lparr>w_results = [?row], w_llm = 2 :: nat, w_llm_calls = 2\<rparr>"
  let ?cached = "\<lparr>res_agentId = ''agent-1'', res_toolCallId = ''tc1'', res_conversations = [],
             res_result = ''SAFE''\<rparr>"
  have pk: "distinct (map res_toolCallId (w_results (example_world [])))"
    by (simp add: example_world_def)
  have first: "sanitizeWithDualLlm example_runtime (example_client JNull) example_config
      example_messages ''agent-1'' ''tu1'' (example_world []) = (Inr ''SAFE'', ?w1)"
    by (simp add: example_filter_simps)
  have hit: "findByToolCallId (w_results (example_world [?cached])) ''tc1'' = Some ?cached"
    by (simp add: findByToolCallId_def example_world_def)
  note miss = sanitisation_is_idempotent
    [of "example_world []" "''tu1''" example_runtime "example_client JNull" example_config
        example_messages "''agent-1''" example_evaluate]
  note cached = sanitisation_is_idempotent
    [of "example_world [?cached]" "''tc1''" example_runtime "example_client JNull"
        example_config example_messages "''agent-1''" example_evaluate]
  from pk first have hyps: "distinct (map res_toolCallId (w_results (example_world []))) \<and>
      sanitizeWithDualLlm example_runtime (example_client JNull) example_config
        example_messages ''agent-1'' ''tu1'' (example_world []) = (Inr ''SAFE'', ?w1)"
    by simp
  from miss [THEN conjunct2, THEN conjunct2, rule_format, OF hyps, of 2]
  have "sanitizeTimes (Suc 2) example_runtime (example_client JNull) example_config
      example_messages ''agent-1'' ''tu1'' (example_world [])
      = (replicate (Suc 2) (Inr ''SAFE''), ?w1)"
    by (rule conjunct1)
  then have three: "sanitizeTimes 3 example_runtime (example_client JNull) example_config
      example_messages ''agent-1'' ''tu1'' (example_world [])
      = ([Inr ''SAFE'', Inr ''SAFE'', Inr ''SAFE''], ?w1)"
    by (simp add: eval_nat_numeral)
  from cached [THEN conjunct1, rule_format, OF hit]
  have again: "sanitizeWithDualLlm example_runtime (example_client JNull) example_config
      example_messages ''agent-1'' ''tc1'' (example_world [?cached])
      = (Inr ''SAFE'', \<lparr>w_results = [?cached], w_llm = 0, w_llm_calls = 0\<rparr>)"
    by (simp add: example_world_def)
  show ?thesis
    by (intro conjI pk first three hit again)
qed

section \<open>Tool results of unknown tools\<close>

text \<open>The first loop of the handler over a list of messages in two parts.\<close>

lemma processToolMessages_append:
  "processToolMessages rt g chatId (before @ rest) store =
     (case processToolMessages rt g chatId before store of
        (Some e, store1) \<Rightarrow> (Some e, store1)
      | (None, store1) \<Rightarrow> processToolMessages rt g chatId rest store1)"
  by (induction before arbitrary: store) (auto split: sum.splits option.splits prod.splits)

lemma evaluateContentBlock_unknown_tool:
  "extractToolNameFromMessages messages toolUseId = None \<Longrightarrow>
   evaluateContentBlock rt evaluate client config messages agentId
     (ToolResultBlock toolUseId content) w
   = (Inr (ToolResultBlock toolUseId content, True), w)"
  by (simp add: evaluateContentBlock_def)

lemma evaluateContentBlocks_unknown_tool:
  assumes "extractToolNameFromMessages messages toolUseId = None"
  shows "evaluateContentBlocks rt evaluate client config messages agentId bs w
           = (Inr (bs', u), w') \<Longrightarrow>
         ToolResultBlock toolUseId content \<in> set bs \<Longrightarrow> u"
proof (induction bs arbitrary: w bs' u w')
  case Nil
  then show ?case by simp
next
  case (Cons b bs)
  from Cons.prems(1) obtain b1 u1 w1 rest u2 where
    head: "evaluateContentBlock rt evaluate client config messages agentId b w
           = (Inr (b1, u1), w1)"
    and tail: "evaluateContentBlocks rt evaluate client config messages agentId bs w1
           = (Inr (rest, u2), w')"
    and u: "u = (u1 \<or> u2)"
    by (auto split: prod.splits sum.splits)
  show ?case
  proof (cases "b = ToolResultBlock toolUseId content")
    case True
    with head assms have "u1" by (simp add: evaluateContentBlock_unknown_tool)
    with u show ?thesis by simp
  next
    case False
    with Cons.prems(2) have "ToolResultBlock toolUseId content \<in> set bs" by simp
    with tail have "u2" by (rule Cons.IH)
    with u show ?thesis by simp
  qed
qed

lemma filterMessages_unknown_tool:
  assumes "extractToolNameFromMessages messages toolUseId = None"
    and "a_role m = ''user''" and "a_content m = BlocksContent blocks"
    and "ToolResultBlock toolUseId content \<in> set blocks"
  shows "filterMessages rt evaluate client config messages agentId rest w
           = (Inr (filtered, u), w') \<Longrightarrow>
         m \<in> set rest \<Longrightarrow> u"
proof (induction rest arbitrary: w filtered u w')
  case Nil
  then show ?case by simp
next
  case (Cons x rest)
  let ?head = "(if a_role x = ''user''
            then (case a_content x of
                    BlocksContent blocks \<Rightarrow>
                      (if blocks = [] then (Inr (x, False), w)
                       else (case evaluateContentBlocks rt evaluate client config messages
                                    agentId blocks w of
                               (Inl e, w1) \<Rightarrow> (Inl e, w1)
                             | (Inr (updatedContentBlocks, untrusted), w1) \<Rightarrow>
                                 (Inr (x\<lparr>a_content := BlocksContent updatedContentBlocks\<rparr>,
                                       untrusted), w1)))
                  | StringContent _ \<Rightarrow> (Inr (x, False), w))
            else (Inr (x, False), w))"
  from Cons.prems(1) obtain x1 u1 w1 filteredRest u2 where
    head: "?head = (Inr (x1, u1), w1)"
    and tail: "filterMessages rt evaluate client config messages agentId rest w1
           = (Inr (filteredRest, u2), w')"
    and u: "u = (u1 \<or> u2)"
    by (auto split: prod.splits sum.splits)
  show ?case
  proof (cases "x = m")
    case True
    from assms(4) have "blocks \<noteq> []" by auto
    with True head assms(2,3) obtain updated where
      "evaluateContentBlocks rt evaluate client config messages agentId blocks w
       = (Inr (updated, u1), w1)"
      by (auto split: prod.splits sum.splits)
    then have "u1"
      using evaluateContentBlocks_unknown_tool [OF assms(1)] assms(4) by blast
    with u show ?thesis by simp
  next
    case False
    with Cons.prems(2) have "m \<in> set rest" by simp
    with tail have "u2" by (rule Cons.IH)
    with u show ?thesis by simp
  qed
qed

text \<open>
  Claim C8, as the specification states it, fails in the route: a request whose tool
  message answers a tool call that no stored assistant message made. The handler stores
  nothing for the tool message; after the request the table holds the assistant's reply
  alone, untainted, and no interaction has the reason \<^verbatim>\<open>unknown tool for result\<close>.
\<close>

theorem unknown_tool_result_counterexample:
  "chatCompletions example_runtime example_guardrails
     (example_provider \<lparr>resp_id = ''r1'', resp_choices = [assistant_message []]\<rparr> [])
     [''chat-1''] [] ''chat-1''
     \<lparr>req_model = ''m'', req_messages = [tool_message ''call-9'' ''{}''], req_stream = False\<rparr>
   = \<lparr>interactions = [\<lparr>int_chatId = ''chat-1'', int_content = assistant_message [],
                         tainted = False, taintReason = None\<rparr>],
      raw_written = [],
      sent = Some \<lparr>reply_status = 200,
                   reply_body = CompletionBody
                     \<lparr>resp_id = ''r1'', resp_choices = [assistant_message []]\<rparr>\<rparr>\<rparr>"
  by (simp add: chatCompletions_def unaryCompletion_def extractToolNameFromHistory_def
      findByChatId_def example_route_simps)

text \<open>
  Claim C8, amended. A tool result whose tool name cannot be resolved is never stored
  and never sanitised. In the route the content of a tool message is decoded before its
  tool is looked up.
  \<^item> When the content decodes and no stored assistant message carries the tool-call id,
    the message is skipped: the trusted-data evaluator is not asked and no interaction is
    stored for it, tainted or not; the loop goes on with the next message.
  \<^item> When the content is not JSON, resolved or not, the request ends there: the reply is
    500 with the body \<^verbatim>\<open>{error: {message: <the parser's message>, type: "api_error"}}\<close>,
    the table is what the messages before it left, and nothing is stored for the message.
  \<^item> In the Anthropic filter, a \<^verbatim>\<open>tool_result\<close> block whose tool-use id no assistant
    message carries is returned unchanged, without a policy evaluation, an LLM call or a
    row written.
  \<^item> Such a block makes the context untrusted: whenever the filter returns,
    \<^verbatim>\<open>contextIsTrusted\<close> is false.
\<close>

theorem unknown_tool_result_passes_through:
  "(msg_role message = ''tool'' \<and> JSON_parse rt (msg_content message) = Inr toolResult \<and>
    extractToolNameFromHistory store chatId (msg_tool_call_id message) = Inr None \<longrightarrow>
    processToolMessages rt g chatId (message # rest) store
      = processToolMessages rt g chatId rest store)
   \<and> (\<forall>before store1 reason.
        chatId \<in> set chats \<and> req_messages request = before @ message # rest \<and>
        processToolMessages rt g chatId before store = (None, store1) \<and>
        msg_role message = ''tool'' \<and> JSON_parse rt (msg_content message) = Inl reason \<longrightarrow>
        chatCompletions rt g llm chats store chatId request
          = \<lparr>interactions = store1, raw_written = [],
             sent = Some \<lparr>reply_status = 500,
                          reply_body = ErrorBody reason ''api_error''\<rparr>\<rparr>)
   \<and> (extractToolNameFromMessages messages toolUseId = None \<longrightarrow>
       evaluateContentBlock rt evaluate client config messages agentId
         (ToolResultBlock toolUseId content) w
       = (Inr (ToolResultBlock toolUseId content, True), w))
   \<and> (\<forall>m blocks filteredMessages contextIsTrusted w'.
        extractToolNameFromMessages messages toolUseId = None \<and>
        m \<in> set messages \<and> a_role m = ''user'' \<and> a_content m = BlocksContent blocks \<and>
        ToolResultBlock toolUseId content \<in> set blocks \<and>
        evaluateIfContextIsTrusted rt evaluate client config messages agentId w
          = (Inr (filteredMessages, contextIsTrusted), w') \<longrightarrow>
        \<not> contextIsTrusted)"
proof (intro conjI allI impI)
  assume "msg_role message = ''tool'' \<and> JSON_parse rt (msg_content message) = Inr toolResult \<and>
    extractToolNameFromHistory store chatId (msg_tool_call_id message) = Inr None"
  then show "processToolMessages rt g chatId (message # rest) store
      = processToolMessages rt g chatId rest store"
    by simp
next
  fix before store1 reason
  assume h: "chatId \<in> set chats \<and> req_messages request = before @ message # rest \<and>
        processToolMessages rt g chatId before store = (None, store1) \<and>
        msg_role message = ''tool'' \<and> JSON_parse rt (msg_content message) = Inl reason"
  then have "processToolMessages rt g chatId (message # rest) store1
      = (Some (JsError None reason), store1)"
    by simp
  with h have "processToolMessages rt g chatId (req_messages request) store
      = (Some (JsError None reason), store1)"
    by (simp add: processToolMessages_append)
  with h show "chatCompletions rt g llm chats store chatId request
          = \<lparr>interactions = store1, raw_written = [],
             sent = Some \<lparr>reply_status = 500,
                          reply_body = ErrorBody reason ''api_error''\<rparr>\<rparr>"
    by (simp add: chatCompletions_def catchReply_def)
next
  assume "extractToolNameFromMessages messages toolUseId = None"
  then show "evaluateContentBlock rt evaluate client config messages agentId
         (ToolResultBlock toolUseId content) w
       = (Inr (ToolResultBlock toolUseId content, True), w)"
    by (rule evaluateContentBlock_unknown_tool)
next
  fix m blocks filteredMessages contextIsTrusted w'
  assume h: "extractToolNameFromMessages messages toolUseId = None \<and>
        m \<in> set messages \<and> a_role m = ''user'' \<and> a_content m = BlocksContent blocks \<and>
        ToolResultBlock toolUseId content \<in> set blocks \<and>
        evaluateIfContextIsTrusted rt evaluate client config messages agentId w
          = (Inr (filteredMessages, contextIsTrusted), w')"
  then obtain u where
    run: "filterMessages rt evaluate client config messages agentId messages w
          = (Inr (filteredMessages, u), w')"
    and trusted: "contextIsTrusted = (\<not> u)"
    by (auto simp: evaluateIfContextIsTrusted_def split: prod.splits sum.splits)
  from h have "u"
    using filterMessages_unknown_tool [of messages toolUseId m blocks content rt evaluate
        client config agentId messages w filteredMessages u w'] run
    by blast
  with trusted show "\<not> contextIsTrusted" by simp
qed

text \<open>
  On an empty table: the tool message of the example above, whose content \<^verbatim>\<open>{}\<close> decodes,
  is skipped; a request that brings, after a user message, the result \<^verbatim>\<open>File not found\<close>
  of the same unknown call fails with 500. And a conversation whose only message returns
  the result of \<^verbatim>\<open>tu9\<close>, a tool use that no assistant message made.
\<close>

theorem unknown_tool_result_passes_through_witness:
  "msg_role (tool_message ''call-9'' ''{}'') = ''tool''
   \<and> JSON_parse example_runtime (msg_content (tool_message ''call-9'' ''{}'')) = Inr (JObject [])
   \<and> extractToolNameFromHistory [] ''chat-1'' (msg_tool_call_id (tool_message ''call-9'' ''{}''))
       = Inr None
   \<and> processToolMessages example_runtime example_guardrails ''chat-1''
        [tool_message ''call-9'' ''{}''] [] = (None, [])
   \<and> JSON_parse example_runtime (msg_content (tool_message ''call-9'' ''File not found''))
       = Inl ''Unexpected token in JSON''
   \<and> extractToolNameFromHistory [] ''chat-1''
        (msg_tool_call_id (tool_message ''call-9'' ''File not found'')) = Inr None
   \<and> chatCompletions example_runtime example_guardrails
        (example_provider \<lparr>resp_id = ''r1'', resp_choices = [assistant_message []]\<rparr> [])
        [''chat-1''] [] ''chat-1''
        \<lparr>req_model = ''m'',
         req_messages = [user_message ''hi'', tool_message ''call-9'' ''File not found''],
         req_stream = False\<rparr>
       = \<lparr>interactions = [], raw_written = [],
          sent = Some \<lparr>reply_status = 500,
                       reply_body = ErrorBody ''Unexpected token in JSON'' ''api_error''\<rparr>\<rparr>
   \<and> extractToolNameFromMessages
        [\<lparr>a_role = ''user'',
          a_content = BlocksContent [ToolResultBlock ''tu9'' (JString ''{}'')]\<rparr>] ''tu9'' = None
   \<and> evaluateContentBlock example_runtime example_evaluate (example_client JNull) example_config
        [\<lparr>a_role = ''user'',
          a_content = BlocksContent [ToolResultBlock ''tu9'' (JString ''{}'')]\<rparr>]
        ''agent-1'' (ToolResultBlock ''tu9'' (JString ''{}'')) (example_world [])
       = (Inr (ToolResultBlock ''tu9'' (JString ''{}''), True), example_world [])
   \<and> evaluateIfContextIsTrusted example_runtime example_evaluate (example_client JNull)
        example_config
        [\<lparr>a_role = ''user'',
          a_content = BlocksContent [ToolResultBlock ''tu9'' (JString ''{}'')]\<rparr>]
        ''agent-1'' (example_world [])
       = (Inr ([\<lparr>a_role = ''user'',
                 a_content = BlocksContent [ToolResultBlock ''tu9'' (JString ''{}'')]\<rparr>], False),
          example_world [])"
proof -
  let ?message = "tool_message ''call-9'' ''{}''"
  let ?plain = "tool_message ''call-9'' ''File not found''"
  let ?request = "\<lparr>req_model = ''m'', req_messages = [user_message ''hi'', ?plain],
      req_stream = False\<rparr>"
  let ?llm = "example_provider \<lparr>resp_id = ''r1'', resp_choices = [assistant_message []]\<rparr> []"
  let ?m = "\<lparr>a_role = ''user'',
          a_content = BlocksContent [ToolResultBlock ''tu9'' (JString ''{}'')]\<rparr>"
  note inst = unknown_tool_result_passes_through
    [where rt = example_runtime and g = example_guardrails and chatId = "''chat-1''"
       and store = "[]" and messages = "[?m]" and toolUseId = "''tu9''"
       and evaluate = example_evaluate and client = "example_client JNull"
       and config = example_config and agentId = "''agent-1''"
       and content = "JString ''{}''" and w = "example_world []"]
  have role: "msg_role ?message = ''tool''"
    by (simp add: tool_message_def)
  have parse: "JSON_parse example_runtime (msg_content ?message) = Inr (JObject [])"
    by (simp add: tool_message_def example_runtime_def example_parse_def)
  have history: "extractToolNameFromHistory [] ''chat-1'' (msg_tool_call_id ?message) = Inr None"
    by (simp add: extractToolNameFromHistory_def findByChatId_def)
  from role parse history have "msg_role ?message = ''tool'' \<and>
      JSON_parse example_runtime (msg_content ?message) = Inr (JObject []) \<and>
      extractToolNameFromHistory [] ''chat-1'' (msg_tool_call_id ?message) = Inr None"
    by simp
  then have "processToolMessages example_runtime example_guardrails ''chat-1'' (?message # []) []
      = processToolMessages example_runtime example_guardrails ''chat-1'' [] []"
    by (rule inst [THEN conjunct1, THEN mp])
  then have skipped: "processToolMessages example_runtime example_guardrails ''chat-1''
      [?message] [] = (None, [])"
    by simp
  have bad: "JSON_parse example_runtime (msg_content ?plain) = Inl ''Unexpected token in JSON''"
    by (simp add: tool_message_def example_runtime_def example_parse_def)
  have history': "extractToolNameFromHistory [] ''chat-1'' (msg_tool_call_id ?plain) = Inr None"
    by (simp add: extractToolNameFromHistory_def findByChatId_def)
  have "''chat-1'' \<in> set [''chat-1''] \<and>
      req_messages ?request = [user_message ''hi''] @ ?plain # [] \<and>
      processToolMessages example_runtime example_guardrails ''chat-1'' [user_message ''hi''] []
        = (None, []) \<and>
      msg_role ?plain = ''tool'' \<and>
      JSON_parse example_runtime (msg_content ?plain) = Inl ''Unexpected token in JSON''"
    using bad by (simp add: user_message_def tool_message_def)
  then have failed: "chatCompletions example_runtime example_guardrails ?llm [''chat-1''] []
      ''chat-1'' ?request
      = \<lparr>interactions = [], raw_written = [],
         sent = Some \<lparr>reply_status = 500,
                      reply_body = ErrorBody ''Unexpected token in JSON'' ''api_error''\<rparr>\<rparr>"
    by (rule inst [THEN conjunct2, THEN conjunct1, rule_format])
  have unknown: "extractToolNameFromMessages [?m] ''tu9'' = None"
    by (simp add: extractToolNameFromMessages_def)
  then have block: "evaluateContentBlock example_runtime example_evaluate (example_client JNull)
      example_config [?m] ''agent-1'' (ToolResultBlock ''tu9'' (JString ''{}'')) (example_world [])
      = (Inr (ToolResultBlock ''tu9'' (JString ''{}''), True), example_world [])"
    by (rule inst [THEN conjunct2, THEN conjunct2, THEN conjunct1, THEN mp])
  have run: "evaluateIfContextIsTrusted example_runtime example_evaluate (example_client JNull)
      example_config [?m] ''agent-1'' (example_world [])
      = (Inr ([?m], False), example_world [])"
    by (simp add: evaluateIfContextIsTrusted_def block)
  show ?thesis
    by (intro conjI role parse history skipped bad history' failed unknown block run)
qed

end
